theory Spec2Isabelle
  imports Main "HOL-Library.Sublist"
begin

section \<open>Python strings\<close>

text \<open>
  A Python \<open>str\<close> is a sequence of code points. It is modelled as a \<^typ>\<open>string\<close>,
  each \<^typ>\<open>char\<close> standing for the code point of the same number, so the model covers
  the strings whose code points are below 256. The character classes below are those of
  \<open>str.isspace\<close>, \<open>str.isalnum\<close> and \<open>str.lower\<close> on that range.
\<close>

definition code_point :: "char \<Rightarrow> nat" where
  "code_point c = of_char c"

definition isspace :: "char \<Rightarrow> bool" where
  "isspace c = (let n = code_point c in
     (9 \<le> n \<and> n \<le> 13) \<or> (28 \<le> n \<and> n \<le> 32) \<or> n = 133 \<or> n = 160)"

definition isdigit_ascii :: "char \<Rightarrow> bool" where
  "isdigit_ascii c = (let n = code_point c in 48 \<le> n \<and> n \<le> 57)"

definition isalpha_ascii :: "char \<Rightarrow> bool" where
  "isalpha_ascii c = (let n = code_point c in
     (65 \<le> n \<and> n \<le> 90) \<or> (97 \<le> n \<and> n \<le> 122))"

definition isalnum :: "char \<Rightarrow> bool" where
  "isalnum c = (let n = code_point c in
     isdigit_ascii c \<or> isalpha_ascii c
     \<or> n = 170 \<or> n = 178 \<or> n = 179 \<or> n = 181 \<or> n = 185 \<or> n = 186
     \<or> (188 \<le> n \<and> n \<le> 190)
     \<or> (192 \<le> n \<and> n \<le> 214) \<or> (216 \<le> n \<and> n \<le> 246) \<or> 248 \<le> n)"

definition lower_char :: "char \<Rightarrow> char" where
  "lower_char c = (let n = code_point c in
     if (65 \<le> n \<and> n \<le> 90) \<or> (192 \<le> n \<and> n \<le> 222 \<and> n \<noteq> 215)
     then char_of (n + 32) else c)"

definition lower :: "string \<Rightarrow> string" where
  "lower s = map lower_char s"

text \<open>\<open>s.strip()\<close>: whitespace is dropped from both ends.\<close>

definition lstrip :: "string \<Rightarrow> string" where
  "lstrip s = dropWhile isspace s"

definition rstrip :: "string \<Rightarrow> string" where
  "rstrip s = rev (dropWhile isspace (rev s))"

definition strip :: "string \<Rightarrow> string" where
  "strip s = rstrip (lstrip s)"

text \<open>\<open>s.replace(c, '')\<close> for a one-character \<open>c\<close>: every occurrence of \<open>c\<close> goes.\<close>

definition remove_char :: "char \<Rightarrow> string \<Rightarrow> string" where
  "remove_char c s = filter (\<lambda>x. x \<noteq> c) s"

text \<open>\<open>sub in s\<close> on strings: \<open>sub\<close> occurs in \<open>s\<close> as a contiguous run.\<close>

fun py_contains :: "string \<Rightarrow> string \<Rightarrow> bool" where
  "py_contains sub [] = (sub = [])"
| "py_contains sub (c # cs) = (prefix sub (c # cs) \<or> py_contains sub cs)"

text \<open>\<open>sep.join(xs)\<close>.\<close>

fun py_join :: "string \<Rightarrow> string list \<Rightarrow> string" where
  "py_join sep [] = []"
| "py_join sep [x] = x"
| "py_join sep (x # y # ys) = x @ sep @ py_join sep (y # ys)"

text \<open>
  \<open>s.split(c)\<close> for a one-character separator: the pieces between the occurrences of
  \<open>c\<close>; the empty string gives one empty piece.
\<close>

fun split_char :: "char \<Rightarrow> string \<Rightarrow> string list" where
  "split_char c [] = [[]]"
| "split_char c (x # xs) =
     (case split_char c xs of
        [] \<Rightarrow> [[x]]
      | p # ps \<Rightarrow> if x = c then [] # p # ps else (x # p) # ps)"

section \<open>Values and errors\<close>

text \<open>
  The values a configuration field, a YAML document or a validator's result can hold.
\<close>

datatype pyvalue = PyStr string | PyBool bool | PyList "string list"

text \<open>
  The exceptions the program raises or lets through. \<open>Unmodelled\<close> marks an input that
  this development does not cover (it is no Python exception): the program's behaviour
  there is left open.
\<close>

datatype error =
    ValidationError string
  | FileNotFoundError
  | FileExistsError
  | NotADirectoryError
  | IsADirectoryError
  | OSError
  | EOFError
  | Unmodelled

section \<open>Validator\<close>

definition invalid_chars :: "char set" where
  "invalid_chars =
     set (''!#$&*|;:'' @ [CHR 0x22] @ ''<>?/'' @ [CHR 0x5C] @ ''[]{}'')"

text \<open>
  \<open>validate_package_name\<close>: the checks in the order of the source; \<open>name[0]\<close> is read only
  after the emptiness check. The function returns \<open>True\<close>. The message of the third
  error ends, in the source, with the printed set of invalid characters, left out here.
\<close>

definition validate_package_name :: "string \<Rightarrow> error + pyvalue" where
  "validate_package_name name =
    (if name = [] then Inl (ValidationError ''Package name cannot be empty'')
     else if length name > 255 then
       Inl (ValidationError ''Package name too long (max 255 characters)'')
     else if list_ex (\<lambda>c. c \<in> invalid_chars) name then
       Inl (ValidationError ''Package name contains invalid characters'')
     else if \<not> isalnum (hd name) then
       Inl (ValidationError ''Package name must start with alphanumeric character'')
     else if CHR '' '' \<in> set name then
       Inl (ValidationError ''Package name cannot contain spaces'')
     else Inr (PyBool True))"

text \<open>
  \<open>validate_version\<close>: \<open>re.match(r'^\d+\.\d+\.\d+', version)\<close>, a prefix match of three
  runs of digits separated by dots.
\<close>

definition digits_then :: "string \<Rightarrow> string option" where
  "digits_then s =
    (if takeWhile isdigit_ascii s = [] then None else Some (dropWhile isdigit_ascii s))"

definition dot_then :: "string \<Rightarrow> string option" where
  "dot_then s = (case s of [] \<Rightarrow> None | c # cs \<Rightarrow> if c = CHR ''.'' then Some cs else None)"

definition matches_version :: "string \<Rightarrow> bool" where
  "matches_version s =
    (case digits_then s of None \<Rightarrow> False | Some s1 \<Rightarrow>
     case dot_then s1 of None \<Rightarrow> False | Some s2 \<Rightarrow>
     case digits_then s2 of None \<Rightarrow> False | Some s3 \<Rightarrow>
     case dot_then s3 of None \<Rightarrow> False | Some s4 \<Rightarrow>
     digits_then s4 \<noteq> None)"

definition validate_version :: "string \<Rightarrow> error + pyvalue" where
  "validate_version version =
    (if version = [] then Inl (ValidationError ''Version cannot be empty'')
     else if \<not> matches_version version then
       Inl (ValidationError ''Version must follow semantic versioning (e.g., 1.0.0)'')
     else Inr (PyBool True))"

text \<open>
  \<open>validate_email\<close>: the pattern \<open>^[a-zA-Z0-9._%+-]+@[a-zA-Z0-9.-]+\.[a-zA-Z]{2,}$\<close>.
  Neither character class holds \<open>@\<close>, so the local part is what precedes the first
  \<open>@\<close>; the last class holds no dot, so the top-level part is what follows the last dot.
  \<open>$\<close> also matches before one final newline.
\<close>

definition email_local_char :: "char \<Rightarrow> bool" where
  "email_local_char c = (isalpha_ascii c \<or> isdigit_ascii c \<or> c \<in> set ''._%+-'')"

definition email_domain_char :: "char \<Rightarrow> bool" where
  "email_domain_char c = (isalpha_ascii c \<or> isdigit_ascii c \<or> c \<in> set ''.-'')"

definition matches_email_body :: "string \<Rightarrow> bool" where
  "matches_email_body s =
    (let local = takeWhile (\<lambda>c. c \<noteq> CHR ''@'') s;
         rest = dropWhile (\<lambda>c. c \<noteq> CHR ''@'') s
     in local \<noteq> [] \<and> list_all email_local_char local \<and>
        (case rest of [] \<Rightarrow> False
         | at # host \<Rightarrow>
            (let tld = rev (takeWhile (\<lambda>c. c \<noteq> CHR ''.'') (rev host));
                 front = rev (dropWhile (\<lambda>c. c \<noteq> CHR ''.'') (rev host))
             in (case rev front of [] \<Rightarrow> False
                 | dot # rdom \<Rightarrow>
                    rdom \<noteq> [] \<and> list_all email_domain_char rdom \<and>
                    2 \<le> length tld \<and> list_all isalpha_ascii tld))))"

definition matches_email :: "string \<Rightarrow> bool" where
  "matches_email s =
    (matches_email_body s \<or>
     (s \<noteq> [] \<and> last s = CHR 0x0A \<and> matches_email_body (butlast s)))"

definition validate_email :: "string \<Rightarrow> error + pyvalue" where
  "validate_email email =
    (if email = [] then Inr (PyBool True)
     else if \<not> matches_email email then Inl (ValidationError ''Invalid email format'')
     else Inr (PyBool True))"

section \<open>Sanitizer\<close>

definition dangerous_chars :: "char list" where
  "dangerous_chars = [CHR 0x00, CHR 0x01, CHR 0x02, CHR 0x03, CHR 0x04, CHR 0x05]"

definition sanitize_input :: "string \<Rightarrow> string" where
  "sanitize_input text =
    (if text = [] then []
     else strip (fold remove_char dangerous_chars text))"

section \<open>Configuration record\<close>

text \<open>
  The dataclass \<open>PackageConfig\<close>, every field with the type the dataclass declares for it.
\<close>

record PackageConfig =
  name :: string
  version :: string
  description :: string
  long_description :: string
  is_metapackage :: bool
  tools :: "string list"
  create_desktop :: bool
  desktop_name :: string
  desktop_comment :: string
  desktop_icon :: string
  desktop_categories :: string
  dependencies :: "string list"
  menu_section :: string
  maintainer :: string
  email :: string
  output_dir :: string

definition default_config :: PackageConfig where
  "default_config =
    \<lparr> name = [], version = ''1.0.0'', description = [], long_description = [],
      is_metapackage = False, tools = [], create_desktop = False,
      desktop_name = [], desktop_comment = [], desktop_icon = ''applications-system'',
      desktop_categories = ''System'', dependencies = [], menu_section = ''99-Misc'',
      maintainer = ''Serenium Team'', email = ''team@serenium.org'', output_dir = ''.'' \<rparr>"

section \<open>Rendered texts\<close>

definition newline :: string where
  "newline = [CHR 0x0A]"

definition dquote :: string where
  "dquote = [CHR 0x22]"

definition squote :: string where
  "squote = [CHR 0x27]"

text \<open>The lines of a triple-quoted template, each one ended by a newline.\<close>

definition py_lines :: "string list \<Rightarrow> string" where
  "py_lines ls = concat (map (\<lambda>l. l @ newline) ls)"

text \<open>
  The changelog of \<open>create_debian_structure\<close>; \<open>now\<close> is the text that
  \<open>datetime.now().strftime(...)\<close> gives.
\<close>

definition changelog_text :: "PackageConfig \<Rightarrow> string \<Rightarrow> string" where
  "changelog_text cfg now = py_lines
    [ name cfg @ '' ('' @ version cfg @ '') unstable; urgency=medium'',
      [],
      ''  * Initial release'',
      ''  * '' @ description cfg,
      [],
      '' -- '' @ maintainer cfg @ '' <'' @ email cfg @ ''>  '' @ now ]"

text \<open>
  The value of the replacement field on the \<open>Depends:\<close> line. The alternative for an empty
  list is the plain string literal \<open>'${{misc:Depends}}'\<close> inside the replacement field,
  where braces are not escapes: its value keeps both pairs of braces.
\<close>

definition depends_field :: "PackageConfig \<Rightarrow> string" where
  "depends_field cfg =
    (if dependencies cfg \<noteq> [] then py_join '', '' (dependencies cfg)
     else ''${{misc:Depends}}'')"

definition control_text :: "PackageConfig \<Rightarrow> string" where
  "control_text cfg =
    (if is_metapackage cfg then py_lines
      [ ''Source: '' @ name cfg,
        ''Section: metapackages'',
        ''Priority: optional'',
        ''Maintainer: '' @ maintainer cfg @ '' <'' @ email cfg @ ''>'',
        ''Build-Depends: debhelper-compat (= 13)'',
        ''Standards-Version: 4.6.0'',
        [],
        ''Package: '' @ name cfg,
        ''Architecture: all'',
        ''Depends: '' @ depends_field cfg,
        ''Description: '' @ description cfg,
        '' '' @ long_description cfg ]
     else py_lines
      [ ''Source: '' @ name cfg,
        ''Section: misc'',
        ''Priority: optional'',
        ''Maintainer: '' @ maintainer cfg @ '' <'' @ email cfg @ ''>'',
        ''Build-Depends: debhelper-compat (= 13)'',
        ''Standards-Version: 4.6.0'',
        [],
        ''Package: '' @ name cfg,
        ''Architecture: all'',
        ''Depends: '' @ depends_field cfg,
        ''Description: '' @ description cfg,
        '' '' @ long_description cfg ])"

definition rules_text :: string where
  "rules_text = py_lines [ ''#!/usr/bin/make -f'', ''%:'', [CHR 0x09] @ ''dh $@'' ]"

definition desktop_entry_text :: "PackageConfig \<Rightarrow> string" where
  "desktop_entry_text cfg = py_lines
    [ ''[Desktop Entry]'',
      ''Name='' @ desktop_name cfg,
      ''Comment='' @ desktop_comment cfg,
      ''Exec='' @ name cfg,
      ''Icon='' @ desktop_icon cfg,
      ''Terminal=false'',
      ''Type=Application'',
      ''Categories='' @ desktop_categories cfg,
      ''StartupNotify=true'' ]"

definition launcher_text :: "PackageConfig \<Rightarrow> string" where
  "launcher_text cfg =
     py_lines
      [ ''#!/bin/bash'',
        ''# '' @ name cfg @ '' launcher'',
        ''# Generated by Serenium Package Builder'',
        [],
        ''echo '' @ dquote @ name cfg @ '' - '' @ description cfg @ dquote,
        ''echo '' @ dquote @ dquote,
        ''echo '' @ dquote @ ''Available tools:'' @ dquote ]
     @ concat (map (\<lambda>tool. ''echo '' @ squote @ ''  - '' @ tool @ squote @ newline) (tools cfg))
     @ py_lines
      [ [],
        ''echo '' @ dquote @ dquote,
        ''echo '' @ dquote @ ''Use '' @ squote @ ''dpkg -L serenium-toolkit'' @ squote
          @ '' to see all installed files.'' @ dquote ]"

definition build_script_text :: "PackageConfig \<Rightarrow> string" where
  "build_script_text cfg = py_lines
    [ ''#!/bin/bash'',
      ''# Build script for '' @ name cfg,
      ''# Generated by Serenium Package Builder'',
      [],
      ''set -e'',
      [],
      ''PACKAGE_NAME='' @ dquote @ name cfg @ dquote,
      ''PACKAGE_VERSION='' @ dquote @ version cfg @ dquote,
      [],
      ''echo '' @ dquote @ ''Building $PACKAGE_NAME version $PACKAGE_VERSION...'' @ dquote,
      [],
      ''# Clean previous builds'',
      ''rm -f ../${PACKAGE_NAME}_*.deb ../${PACKAGE_NAME}_*.tar.gz ''
        @ ''../${PACKAGE_NAME}_*.dsc ../${PACKAGE_NAME}_*.changes'',
      [],
      ''# Build the package'',
      ''dpkg-buildpackage -us -uc -b'',
      [],
      ''echo '' @ dquote @ ''Build complete!'' @ dquote,
      ''echo '' @ dquote @ ''Package file: ../${PACKAGE_NAME}_${PACKAGE_VERSION}_all.deb'' @ dquote,
      ''echo '' @ dquote @ dquote,
      ''echo '' @ dquote @ ''To install:'' @ dquote,
      ''echo '' @ dquote @ ''  sudo dpkg -i ../${PACKAGE_NAME}_${PACKAGE_VERSION}_all.deb''
        @ dquote,
      ''echo '' @ dquote @ ''  sudo apt-get install -f  # Fix dependencies if needed''
        @ dquote ]"

text \<open>
  \<open>create_readme\<close>: the head, the two optional bullet lists (one line per tool, one line
  per dependency), and the fixed tail, in which \<open>format\<close> fills in name and version.
\<close>

definition readme_head :: "PackageConfig \<Rightarrow> string" where
  "readme_head cfg = py_lines
    [ ''# '' @ name cfg,
      [],
      description cfg,
      [],
      ''## Package Information'',
      ''- **Version**: '' @ version cfg,
      ''- **Type**: '' @ (if is_metapackage cfg then ''Metapackage'' else ''Regular Package''),
      ''- **Maintainer**: '' @ maintainer cfg @ '' <'' @ email cfg @ ''>'',
      [] ]"

definition bullet_list :: "string \<Rightarrow> string list \<Rightarrow> string" where
  "bullet_list title items =
    (if items \<noteq> [] then
       title @ newline @ concat (map (\<lambda>i. ''- '' @ i @ newline) items) @ newline
     else [])"

definition readme_tail :: "PackageConfig \<Rightarrow> string" where
  "readme_tail cfg = py_lines
    [ ''## Building'',
      [],
      ''To build this package:'',
      [],
      ''```bash'',
      ''./build.sh'',
      ''```'',
      [],
      ''## Installation'',
      [],
      ''To install the built package:'',
      [],
      ''```bash'',
      ''sudo dpkg -i ../'' @ name cfg @ ''_'' @ version cfg @ ''_all.deb'',
      ''sudo apt-get install -f  # Fix dependencies if needed'',
      ''```'',
      [],
      ''## Removal'',
      [],
      ''To remove this package:'',
      [],
      ''```bash'',
      ''sudo apt-get remove '' @ name cfg,
      ''```'',
      [],
      ''---'',
      ''Generated by Serenium Package Builder'' ]"

definition readme_text :: "PackageConfig \<Rightarrow> string" where
  "readme_text cfg =
    readme_head cfg
    @ bullet_list ''## Included Tools'' (tools cfg)
    @ bullet_list ''## Dependencies'' (dependencies cfg)
    @ readme_tail cfg"

section \<open>Paths and the file system\<close>

text \<open>
  A path is the list of its components from the root. \<open>base / s\<close> of \<open>pathlib\<close>: the
  components of \<open>s\<close> are what lies between its slashes, empty ones and \<open>.\<close> dropped; an
  absolute \<open>s\<close> replaces \<open>base\<close>. A segment with a \<open>..\<close> component or a NUL character
  is not covered by the model (\<open>None\<close>).
\<close>

type_synonym path = "string list"

definition parts_of :: "string \<Rightarrow> string list" where
  "parts_of s = filter (\<lambda>p. p \<noteq> [] \<and> p \<noteq> ''.'') (split_char CHR ''/'' s)"

definition is_absolute :: "string \<Rightarrow> bool" where
  "is_absolute s = (case s of [] \<Rightarrow> False | c # cs \<Rightarrow> c = CHR ''/'')"

definition join :: "path \<Rightarrow> string \<Rightarrow> path option" where
  "join base s =
    (if ''..'' \<in> set (parts_of s) \<or> CHR 0x00 \<in> set s then None
     else if is_absolute s then Some (parts_of s)
     else Some (base @ parts_of s))"

text \<open>
  \<open>str(Path(base) / s)\<close> for a relative \<open>base\<close> given by its components: the text stored
  in a symbolic link.
\<close>

definition relative_text :: "string list \<Rightarrow> string \<Rightarrow> string" where
  "relative_text base s =
    (if is_absolute s then ''/'' @ py_join ''/'' (parts_of s)
     else py_join ''/'' (base @ parts_of s))"

text \<open>
  A YAML or JSON file is represented by the mapping it denotes, in the order of its
  entries: writing a mapping and parsing it again is the library's business and is taken
  to give the mapping back.
\<close>

datatype content =
    Text string
  | YamlDoc "(string \<times> pyvalue) list"
  | JsonDoc "(string \<times> pyvalue) list"

text \<open>
  The permission bits of a file: those a new file gets from the process's umask, or those
  set by \<open>chmod\<close>.
\<close>

datatype mode = UmaskDefault | Mode nat

datatype node = Dir | File content mode | Symlink string

type_synonym filesystem = "path \<Rightarrow> node option"

definition lookup :: "filesystem \<Rightarrow> path \<Rightarrow> node option" where
  "lookup fs p = (if p = [] then Some Dir else fs p)"

text \<open>
  An operation either completes or raises; what it had done before raising stays done,
  so both outcomes carry the state.
\<close>

datatype 'a result = Ok 'a | Raise error 'a

fun state_of :: "'a result \<Rightarrow> 'a" where
  "state_of (Ok s) = s"
| "state_of (Raise e s) = s"

fun is_ok :: "'a result \<Rightarrow> bool" where
  "is_ok (Ok s) = True"
| "is_ok (Raise e s) = False"

fun and_then :: "'a result \<Rightarrow> ('a \<Rightarrow> 'a result) \<Rightarrow> 'a result" where
  "and_then (Ok s) f = f s"
| "and_then (Raise e s) f = Raise e s"

fun run_all :: "('a \<Rightarrow> 'a result) list \<Rightarrow> 'a \<Rightarrow> 'a result" where
  "run_all [] s = Ok s"
| "run_all (f # fs) s = and_then (f s) (run_all fs)"

text \<open>
  The model follows no symbolic link: an operation that would have to resolve one is
  \<open>Unmodelled\<close>.
\<close>

text \<open>
  \<open>mkdir(parents=True, exist_ok=True)\<close>: every missing directory along the path is
  created; an existing directory is accepted; a file in the way raises
  \<open>FileExistsError\<close> when it is the path itself and \<open>NotADirectoryError\<close> when it is an
  ancestor.
\<close>

fun mkdirs :: "path \<Rightarrow> string list \<Rightarrow> filesystem \<Rightarrow> filesystem result" where
  "mkdirs base [] fs = Ok fs"
| "mkdirs base (c # cs) fs =
    (case lookup fs (base @ [c]) of
       None \<Rightarrow> mkdirs (base @ [c]) cs (fs(base @ [c] \<mapsto> Dir))
     | Some Dir \<Rightarrow> mkdirs (base @ [c]) cs fs
     | Some (File x m) \<Rightarrow> Raise (if cs = [] then FileExistsError else NotADirectoryError) fs
     | Some (Symlink t) \<Rightarrow> Raise Unmodelled fs)"

definition mkdir_parents :: "path \<Rightarrow> filesystem \<Rightarrow> filesystem result" where
  "mkdir_parents p fs = mkdirs [] p fs"

text \<open>\<open>mkdir(exist_ok=True)\<close>, without \<open>parents\<close>: the parent must be there.\<close>

definition mkdir_exist_ok :: "path \<Rightarrow> filesystem \<Rightarrow> filesystem result" where
  "mkdir_exist_ok p fs =
    (if p = [] then Ok fs
     else case lookup fs (butlast p) of
       None \<Rightarrow> Raise FileNotFoundError fs
     | Some (File x m) \<Rightarrow> Raise NotADirectoryError fs
     | Some (Symlink t) \<Rightarrow> Raise Unmodelled fs
     | Some Dir \<Rightarrow>
        (case fs p of
           None \<Rightarrow> Ok (fs(p \<mapsto> Dir))
         | Some Dir \<Rightarrow> Ok fs
         | Some (File x m) \<Rightarrow> Raise FileExistsError fs
         | Some (Symlink t) \<Rightarrow> Raise Unmodelled fs))"

text \<open>
  Opening a path for writing and storing the content: a new file gets the default mode,
  an existing file keeps its mode.
\<close>

definition write_file :: "path \<Rightarrow> content \<Rightarrow> filesystem \<Rightarrow> filesystem result" where
  "write_file p x fs =
    (if p = [] then Raise IsADirectoryError fs
     else case lookup fs (butlast p) of
       None \<Rightarrow> Raise FileNotFoundError fs
     | Some (File y m) \<Rightarrow> Raise NotADirectoryError fs
     | Some (Symlink t) \<Rightarrow> Raise Unmodelled fs
     | Some Dir \<Rightarrow>
        (case fs p of
           None \<Rightarrow> Ok (fs(p \<mapsto> File x UmaskDefault))
         | Some (File y m) \<Rightarrow> Ok (fs(p \<mapsto> File x m))
         | Some Dir \<Rightarrow> Raise IsADirectoryError fs
         | Some (Symlink t) \<Rightarrow> Raise Unmodelled fs))"

definition write_text :: "path \<Rightarrow> string \<Rightarrow> filesystem \<Rightarrow> filesystem result" where
  "write_text p t fs = write_file p (Text t) fs"

text \<open>\<open>chmod\<close>; the mode of a directory is not recorded.\<close>

definition chmod :: "path \<Rightarrow> nat \<Rightarrow> filesystem \<Rightarrow> filesystem result" where
  "chmod p m fs =
    (case lookup fs p of
       None \<Rightarrow> Raise FileNotFoundError fs
     | Some Dir \<Rightarrow> Ok fs
     | Some (File x old) \<Rightarrow> Ok (fs(p \<mapsto> File x (Mode m)))
     | Some (Symlink t) \<Rightarrow> Raise Unmodelled fs)"

text \<open>The octal mode \<open>755\<close>.\<close>

definition mode_755 :: nat where
  "mode_755 = 7 * 64 + 5 * 8 + 5"

definition symlink_to :: "path \<Rightarrow> string \<Rightarrow> filesystem \<Rightarrow> filesystem result" where
  "symlink_to p target fs =
    (if p = [] then Raise FileExistsError fs
     else case lookup fs (butlast p) of
       None \<Rightarrow> Raise FileNotFoundError fs
     | Some (File y m) \<Rightarrow> Raise NotADirectoryError fs
     | Some (Symlink t) \<Rightarrow> Raise Unmodelled fs
     | Some Dir \<Rightarrow>
        (case fs p of
           None \<Rightarrow> Ok (fs(p \<mapsto> Symlink target))
         | Some n \<Rightarrow> Raise FileExistsError fs))"

text \<open>
  \<open>shutil.rmtree\<close>: a directory goes with everything below it; a symbolic link and a
  plain file are refused.
\<close>

definition rmtree :: "path \<Rightarrow> filesystem \<Rightarrow> filesystem result" where
  "rmtree p fs =
    (case lookup fs p of
       None \<Rightarrow> Raise FileNotFoundError fs
     | Some (File x m) \<Rightarrow> Raise NotADirectoryError fs
     | Some (Symlink t) \<Rightarrow> Raise OSError fs
     | Some Dir \<Rightarrow> Ok (\<lambda>q. if prefix p q then None else fs q))"

section \<open>Builder state\<close>

datatype level = INFO | ERROR

text \<open>
  The builder object (\<open>config\<close>, \<open>output_dir\<close>, \<open>steps_total\<close>, \<open>steps_completed\<close>) together
  with the world it acts on: the file system, the working directory, the lines still to
  be read from standard input, the records sent to the logger, and the progress bars
  printed, each with the counter, the total and the step text it was called with. Other
  printed text is not recorded.
\<close>

record state =
  config :: PackageConfig
  output_path :: path
  steps_total :: int
  steps_completed :: int
  files :: filesystem
  cwd :: path
  stdin :: "string list"
  logged :: "(level \<times> string) list"
  shown :: "(int \<times> int \<times> string) list"

definition on_files :: "(filesystem \<Rightarrow> filesystem result) \<Rightarrow> state \<Rightarrow> state result" where
  "on_files f s =
    (case f (files s) of
       Ok fs \<Rightarrow> Ok (s\<lparr>files := fs\<rparr>)
     | Raise e fs \<Rightarrow> Raise e (s\<lparr>files := fs\<rparr>))"

definition logger :: "level \<Rightarrow> string \<Rightarrow> state \<Rightarrow> state result" where
  "logger lv msg s = Ok (s\<lparr>logged := logged s @ [(lv, msg)]\<rparr>)"

fun at_path :: "path option \<Rightarrow> (path \<Rightarrow> state \<Rightarrow> state result) \<Rightarrow> state \<Rightarrow> state result" where
  "at_path None f s = Raise Unmodelled s"
| "at_path (Some p) f s = f p s"

text \<open>
  \<open>_update_progress\<close>: the counter goes up by one and the bar is printed from the new
  counter and the total.
\<close>

definition update_progress :: "string \<Rightarrow> state \<Rightarrow> state result" where
  "update_progress step s =
    Ok (s\<lparr>steps_completed := steps_completed s + 1,
          shown := shown s @ [(steps_completed s + 1, steps_total s, step)]\<rparr>)"

section \<open>File emitter\<close>

definition create_debian_structure :: "path \<Rightarrow> string \<Rightarrow> state \<Rightarrow> state result" where
  "create_debian_structure package_path now s =
    (let cfg = config s; debian_dir = package_path @ [''debian''];
         source_dir = debian_dir @ [''source'']
     in run_all
      [ logger INFO ''Creating Debian packaging structure'',
        on_files (mkdir_parents debian_dir),
        on_files (write_text (debian_dir @ [''changelog'']) (changelog_text cfg now)),
        on_files (write_text (debian_dir @ [''control'']) (control_text cfg)),
        on_files (write_text (debian_dir @ [''rules'']) rules_text),
        on_files (chmod (debian_dir @ [''rules'']) mode_755),
        on_files (write_text (debian_dir @ [''compat'']) ''13''),
        on_files (mkdir_exist_ok source_dir),
        on_files (write_text (source_dir @ [''format'']) ''3.0 (native)'') ] s)"

definition create_desktop_entry :: "path \<Rightarrow> state \<Rightarrow> state result" where
  "create_desktop_entry package_path s =
    (let cfg = config s; desktop_dir = package_path @ [''usr'', ''share'', ''applications'']
     in if \<not> create_desktop cfg then Ok s
        else run_all
          [ logger INFO ''Creating desktop entry'',
            on_files (mkdir_parents desktop_dir),
            at_path (join desktop_dir (name cfg @ ''.desktop''))
              (\<lambda>desktop_file. on_files (write_text desktop_file (desktop_entry_text cfg))) ] s)"

definition create_menu_structure :: "path \<Rightarrow> state \<Rightarrow> state result" where
  "create_menu_structure package_path s =
    (let cfg = config s
     in run_all
      [ logger INFO ''Creating menu structure'',
        at_path (join (package_path @ [''usr'', ''share'', ''serenium-menu'', ''applications''])
                   (menu_section cfg))
          (\<lambda>menu_dir. run_all
            [ on_files (mkdir_parents menu_dir),
              (\<lambda>s1. if create_desktop cfg then
                 at_path (join menu_dir (name cfg @ ''.desktop''))
                   (\<lambda>desktop_file. on_files (symlink_to desktop_file
                      (relative_text [''..'', ''..'', ''..'', ''applications'']
                         (name cfg @ ''.desktop'')))) s1
               else Ok s1) ]) ] s)"

definition create_package_files :: "path \<Rightarrow> state \<Rightarrow> state result" where
  "create_package_files package_path s =
    (let cfg = config s; usr_bin = package_path @ [''usr'', ''bin'']
     in if is_metapackage cfg then Ok s
        else run_all
          [ logger INFO ''Creating package files'',
            on_files (mkdir_parents usr_bin),
            (\<lambda>s1. if tools cfg \<noteq> [] then
               at_path (join usr_bin (name cfg))
                 (\<lambda>launcher_file. run_all
                   [ on_files (write_text launcher_file (launcher_text cfg)),
                     on_files (chmod launcher_file mode_755) ]) s1
             else Ok s1) ] s)"

definition create_build_script :: "path \<Rightarrow> state \<Rightarrow> state result" where
  "create_build_script package_path s =
    (let cfg = config s; build_file = package_path @ [''build.sh'']
     in run_all
      [ logger INFO ''Creating build script'',
        on_files (write_text build_file (build_script_text cfg)),
        on_files (chmod build_file mode_755) ] s)"

definition create_readme :: "path \<Rightarrow> state \<Rightarrow> state result" where
  "create_readme package_path s =
    run_all
      [ logger INFO ''Creating README'',
        on_files (write_text (package_path @ [''README.md'']) (readme_text (config s))) ] s"

text \<open>\<open>save_config\<close>: the fifteen entries of \<open>config_data\<close>, written as a YAML mapping.\<close>

definition config_data :: "PackageConfig \<Rightarrow> (string \<times> pyvalue) list" where
  "config_data cfg =
    [ (''name'', PyStr (name cfg)),
      (''version'', PyStr (version cfg)),
      (''description'', PyStr (description cfg)),
      (''long_description'', PyStr (long_description cfg)),
      (''is_metapackage'', PyBool (is_metapackage cfg)),
      (''tools'', PyList (tools cfg)),
      (''create_desktop'', PyBool (create_desktop cfg)),
      (''desktop_name'', PyStr (desktop_name cfg)),
      (''desktop_comment'', PyStr (desktop_comment cfg)),
      (''desktop_icon'', PyStr (desktop_icon cfg)),
      (''desktop_categories'', PyStr (desktop_categories cfg)),
      (''dependencies'', PyList (dependencies cfg)),
      (''menu_section'', PyStr (menu_section cfg)),
      (''maintainer'', PyStr (maintainer cfg)),
      (''email'', PyStr (email cfg)) ]"

definition save_config :: "path \<Rightarrow> state \<Rightarrow> state result" where
  "save_config package_path s =
    on_files (write_file (package_path @ [''serenium-config.yaml''])
                (YamlDoc (config_data (config s)))) s"

section \<open>Build orchestrator\<close>

text \<open>
  The body of the \<open>try\<close> block of \<open>build_package\<close>: eight progress updates, seven of them
  followed by an emission step, and the final log record.
\<close>

definition emit_all :: "path \<Rightarrow> string \<Rightarrow> state \<Rightarrow> state result" where
  "emit_all package_path now s =
    run_all
      [ update_progress ''Creating Debian packaging structure'',
        create_debian_structure package_path now,
        update_progress ''Creating package files'',
        create_package_files package_path,
        update_progress ''Creating desktop entry'',
        create_desktop_entry package_path,
        update_progress ''Setting up menu structure'',
        create_menu_structure package_path,
        update_progress ''Creating build script'',
        create_build_script package_path,
        update_progress ''Generating documentation'',
        create_readme package_path,
        update_progress ''Saving configuration'',
        save_config package_path,
        update_progress ''Finalizing package'',
        logger INFO (''Package '' @ name (config s) @ '' version '' @ version (config s)
                       @ '' created successfully'') ] s"

text \<open>
  The \<open>except\<close> clause: the failure is logged and raised again. The logged message ends,
  in the source, with the text of the exception, left out here.
\<close>

definition try_emit :: "path \<Rightarrow> string \<Rightarrow> state \<Rightarrow> state result" where
  "try_emit package_path now s =
    (case emit_all package_path now s of
       Ok s1 \<Rightarrow> Ok s1
     | Raise e s1 \<Rightarrow>
         Raise e (s1\<lparr>logged := logged s1 @ [(ERROR, ''Failed to build package'')]\<rparr>))"

definition make_and_emit :: "path \<Rightarrow> string \<Rightarrow> state \<Rightarrow> state result" where
  "make_and_emit package_path now s =
    and_then (on_files (mkdir_parents package_path) s) (try_emit package_path now)"

text \<open>
  \<open>build_package\<close>. When the target exists, one line is read; unless it is \<open>y\<close> after
  \<open>strip().lower()\<close> the function returns at once.
\<close>

definition build_package :: "string \<Rightarrow> state \<Rightarrow> state result" where
  "build_package now s =
    at_path (join (output_path s) (name (config s) @ ''-'' @ version (config s)))
      (\<lambda>package_path s0.
        case lookup (files s0) package_path of
          None \<Rightarrow> make_and_emit package_path now s0
        | Some (Symlink t) \<Rightarrow> Raise Unmodelled s0
        | Some n \<Rightarrow>
           (case stdin s0 of
              [] \<Rightarrow> Raise EOFError s0
            | response # rest \<Rightarrow>
               if lower (strip response) \<noteq> ''y'' then Ok (s0\<lparr>stdin := rest\<rparr>)
               else and_then (on_files (rmtree package_path) (s0\<lparr>stdin := rest\<rparr>))
                      (make_and_emit package_path now))) s"

section \<open>Input collector: the file-load path\<close>

text \<open>
  \<open>setattr(self.config, key, value)\<close> on the typed record. The source stores whatever
  value the file holds; a value of another type than the field's is not covered by the
  model (\<open>None\<close>).
\<close>

definition field_names :: "string list" where
  "field_names =
    [ ''name'', ''version'', ''description'', ''long_description'', ''is_metapackage'',
      ''tools'', ''create_desktop'', ''desktop_name'', ''desktop_comment'', ''desktop_icon'',
      ''desktop_categories'', ''dependencies'', ''menu_section'', ''maintainer'', ''email'',
      ''output_dir'' ]"

definition str_field :: "(string \<Rightarrow> PackageConfig) \<Rightarrow> pyvalue \<Rightarrow> PackageConfig option" where
  "str_field upd v = (case v of PyStr x \<Rightarrow> Some (upd x) | _ \<Rightarrow> None)"

definition bool_field :: "(bool \<Rightarrow> PackageConfig) \<Rightarrow> pyvalue \<Rightarrow> PackageConfig option" where
  "bool_field upd v = (case v of PyBool x \<Rightarrow> Some (upd x) | _ \<Rightarrow> None)"

definition list_field :: "(string list \<Rightarrow> PackageConfig) \<Rightarrow> pyvalue \<Rightarrow> PackageConfig option" where
  "list_field upd v = (case v of PyList x \<Rightarrow> Some (upd x) | _ \<Rightarrow> None)"

definition setattr_config :: "string \<Rightarrow> pyvalue \<Rightarrow> PackageConfig \<Rightarrow> PackageConfig option" where
  "setattr_config key v cfg =
    (if key = ''name'' then str_field (\<lambda>x. cfg\<lparr>name := x\<rparr>) v
     else if key = ''version'' then str_field (\<lambda>x. cfg\<lparr>version := x\<rparr>) v
     else if key = ''description'' then str_field (\<lambda>x. cfg\<lparr>description := x\<rparr>) v
     else if key = ''long_description'' then str_field (\<lambda>x. cfg\<lparr>long_description := x\<rparr>) v
     else if key = ''is_metapackage'' then bool_field (\<lambda>x. cfg\<lparr>is_metapackage := x\<rparr>) v
     else if key = ''tools'' then list_field (\<lambda>x. cfg\<lparr>tools := x\<rparr>) v
     else if key = ''create_desktop'' then bool_field (\<lambda>x. cfg\<lparr>create_desktop := x\<rparr>) v
     else if key = ''desktop_name'' then str_field (\<lambda>x. cfg\<lparr>desktop_name := x\<rparr>) v
     else if key = ''desktop_comment'' then str_field (\<lambda>x. cfg\<lparr>desktop_comment := x\<rparr>) v
     else if key = ''desktop_icon'' then str_field (\<lambda>x. cfg\<lparr>desktop_icon := x\<rparr>) v
     else if key = ''desktop_categories'' then
       str_field (\<lambda>x. cfg\<lparr>desktop_categories := x\<rparr>) v
     else if key = ''dependencies'' then list_field (\<lambda>x. cfg\<lparr>dependencies := x\<rparr>) v
     else if key = ''menu_section'' then str_field (\<lambda>x. cfg\<lparr>menu_section := x\<rparr>) v
     else if key = ''maintainer'' then str_field (\<lambda>x. cfg\<lparr>maintainer := x\<rparr>) v
     else if key = ''email'' then str_field (\<lambda>x. cfg\<lparr>email := x\<rparr>) v
     else if key = ''output_dir'' then str_field (\<lambda>x. cfg\<lparr>output_dir := x\<rparr>) v
     else None)"

text \<open>
  The loop over \<open>data.items()\<close>: a key that names a field overwrites it, any other key is
  skipped. Besides its fields the record object has only attributes whose names start
  with two underscores; such keys are not covered by the model.
\<close>

fun load_items :: "(string \<times> pyvalue) list \<Rightarrow> PackageConfig \<Rightarrow> PackageConfig option" where
  "load_items [] cfg = Some cfg"
| "load_items ((key, v) # rest) cfg =
    (if key \<in> set field_names then
       (case setattr_config key v cfg of
          None \<Rightarrow> None
        | Some cfg1 \<Rightarrow> load_items rest cfg1)
     else if take 2 key = ''__'' then None
     else load_items rest cfg)"

text \<open>
  \<open>Path.suffix\<close>: the last component from its last dot on, when that dot is neither its
  first nor its last character.
\<close>

definition path_suffix :: "path \<Rightarrow> string" where
  "path_suffix p =
    (if p = [] then []
     else let nm = last p;
              ext = rev (takeWhile (\<lambda>c. c \<noteq> CHR ''.'') (rev nm))
          in if CHR ''.'' \<in> set nm \<and> ext \<noteq> [] \<and> Suc (length ext) < length nm
             then CHR ''.'' # ext else [])"

text \<open>
  The \<open>except\<close> clause of \<open>load_config_from_file\<close>: whatever went wrong inside the \<open>try\<close>
  block is logged and raised as a validation error. Both messages end, in the source,
  with the text of the original exception, left out here.
\<close>

definition load_failed :: "state \<Rightarrow> state result" where
  "load_failed s =
    Raise (ValidationError ''Failed to load configuration'')
      (s\<lparr>logged := logged s @ [(ERROR, ''Failed to load configuration'')]\<rparr>)"

definition apply_data ::
  "string \<Rightarrow> (string \<times> pyvalue) list \<Rightarrow> state \<Rightarrow> state result" where
  "apply_data config_file data s =
    (case load_items data (config s) of
       None \<Rightarrow> Raise Unmodelled s
     | Some cfg \<Rightarrow>
         Ok (s\<lparr>config := cfg,
              logged := logged s @ [(INFO, ''Configuration loaded from '' @ config_file)]\<rparr>))"

text \<open>
  \<open>load_config_from_file\<close>. A missing file raises \<open>FileNotFoundError\<close> before the \<open>try\<close>
  block. Inside it the file is opened (a directory cannot be), the parser is chosen by
  the lower-cased suffix, and the entries are applied. A file whose content is not a
  mapping in the format its suffix names is not covered by the model.
\<close>

definition load_config_from_file :: "string \<Rightarrow> state \<Rightarrow> state result" where
  "load_config_from_file config_file s =
    at_path (join (cwd s) config_file)
      (\<lambda>config_path s0.
        case lookup (files s0) config_path of
          None \<Rightarrow> Raise FileNotFoundError s0
        | Some (Symlink t) \<Rightarrow> Raise Unmodelled s0
        | Some Dir \<Rightarrow> load_failed s0
        | Some (File x m) \<Rightarrow>
           (let sfx = lower (path_suffix config_path)
            in if sfx = ''.yaml'' \<or> sfx = ''.yml'' then
                 (case x of YamlDoc data \<Rightarrow> apply_data config_file data s0
                  | _ \<Rightarrow> Raise Unmodelled s0)
               else if sfx = ''.json'' then
                 (case x of JsonDoc data \<Rightarrow> apply_data config_file data s0
                  | _ \<Rightarrow> Raise Unmodelled s0)
               else load_failed s0)) s"

section \<open>Input collector: the interactive path\<close>

text \<open>\<open>input()\<close>: the next line of standard input, \<open>EOFError\<close> when there is none.\<close>

definition read_input :: "(string \<Rightarrow> state \<Rightarrow> state result) \<Rightarrow> state \<Rightarrow> state result" where
  "read_input k s =
    (case stdin s of
       [] \<Rightarrow> Raise EOFError s
     | line # rest \<Rightarrow> k line (s\<lparr>stdin := rest\<rparr>))"

definition set_config :: "(PackageConfig \<Rightarrow> PackageConfig) \<Rightarrow> state \<Rightarrow> state result" where
  "set_config f s = Ok (s\<lparr>config := f (config s)\<rparr>)"

text \<open>\<open>x or d\<close> on strings.\<close>

definition or_default :: "string \<Rightarrow> string \<Rightarrow> string" where
  "or_default x d = (if x \<noteq> [] then x else d)"

text \<open>\<open>[t.strip() for t in inp.split(',') if t.strip()] if inp else []\<close>.\<close>

definition parse_list :: "string \<Rightarrow> string list" where
  "parse_list inp =
    (if inp \<noteq> [] then filter (\<lambda>t. t \<noteq> []) (map strip (split_char CHR '','' inp)) else [])"

text \<open>
  The three prompting loops: a line that fails validation is dropped and the next one is
  read. The result is the accepted value and the lines left, or \<open>None\<close> when the input
  ends first.
\<close>

fun ask_name :: "string list \<Rightarrow> (string \<times> string list) option" where
  "ask_name [] = None"
| "ask_name (line # rest) =
    (case validate_package_name (sanitize_input line) of
       Inr ok \<Rightarrow> Some (sanitize_input line, rest)
     | Inl e \<Rightarrow> ask_name rest)"

fun ask_version :: "string list \<Rightarrow> (string \<times> string list) option" where
  "ask_version [] = None"
| "ask_version (line # rest) =
    (case validate_version (sanitize_input (or_default line ''1.0.0'')) of
       Inr ok \<Rightarrow> Some (sanitize_input (or_default line ''1.0.0''), rest)
     | Inl e \<Rightarrow> ask_version rest)"

fun ask_package_type :: "string list \<Rightarrow> (bool \<times> string list) option" where
  "ask_package_type [] = None"
| "ask_package_type (line # rest) =
    (if strip line = ''1'' \<or> strip line = ''2'' then Some (strip line = ''2'', rest)
     else ask_package_type rest)"

fun ask_email :: "string list \<Rightarrow> (string \<times> string list) option" where
  "ask_email [] = None"
| "ask_email (line # rest) =
    (case validate_email (sanitize_input (or_default line ''team@serenium.org'')) of
       Inr ok \<Rightarrow> Some (sanitize_input (or_default line ''team@serenium.org''), rest)
     | Inl e \<Rightarrow> ask_email rest)"

definition asked ::
  "(string list \<Rightarrow> ('a \<times> string list) option) \<Rightarrow> ('a \<Rightarrow> PackageConfig \<Rightarrow> PackageConfig)
     \<Rightarrow> state \<Rightarrow> state result" where
  "asked loop upd s =
    (case loop (stdin s) of
       None \<Rightarrow> Raise EOFError (s\<lparr>stdin := []\<rparr>)
     | Some (x, rest) \<Rightarrow> Ok (s\<lparr>config := upd x (config s), stdin := rest\<rparr>))"

definition prompt_descriptions :: "state \<Rightarrow> state result" where
  "prompt_descriptions s =
    run_all
      [ read_input (\<lambda>line. set_config (\<lambda>cfg. cfg\<lparr>description := sanitize_input line\<rparr>)),
        read_input (\<lambda>line. set_config (\<lambda>cfg.
          cfg\<lparr>long_description := or_default (sanitize_input line) (description cfg)\<rparr>)) ] s"

definition prompt_desktop_fields :: "state \<Rightarrow> state result" where
  "prompt_desktop_fields s =
    run_all
      [ read_input (\<lambda>line. set_config (\<lambda>cfg. cfg\<lparr>desktop_name := sanitize_input line\<rparr>)),
        read_input (\<lambda>line. set_config (\<lambda>cfg. cfg\<lparr>desktop_comment := sanitize_input line\<rparr>)),
        read_input (\<lambda>line. set_config (\<lambda>cfg.
          cfg\<lparr>desktop_icon := sanitize_input (or_default line ''applications-system'')\<rparr>)),
        read_input (\<lambda>line. set_config (\<lambda>cfg.
          cfg\<lparr>desktop_categories := sanitize_input (or_default line ''System'')\<rparr>)) ] s"

definition prompt_tools_and_desktop :: "state \<Rightarrow> state result" where
  "prompt_tools_and_desktop s =
    (if \<not> is_metapackage (config s) then
       run_all
        [ read_input (\<lambda>line. set_config (\<lambda>cfg. cfg\<lparr>tools := parse_list (sanitize_input line)\<rparr>)),
          read_input (\<lambda>line. set_config (\<lambda>cfg.
            cfg\<lparr>create_desktop := (lower (strip line) = ''y'')\<rparr>)),
          (\<lambda>s1. if create_desktop (config s1) then prompt_desktop_fields s1 else Ok s1) ] s
     else set_config (\<lambda>cfg. cfg\<lparr>tools := [], create_desktop := False\<rparr>) s)"

definition get_user_input :: "state \<Rightarrow> state result" where
  "get_user_input s =
    run_all
      [ asked ask_name (\<lambda>x cfg. cfg\<lparr>name := x\<rparr>),
        asked ask_version (\<lambda>x cfg. cfg\<lparr>version := x\<rparr>),
        prompt_descriptions,
        asked ask_package_type (\<lambda>x cfg. cfg\<lparr>is_metapackage := x\<rparr>),
        prompt_tools_and_desktop,
        read_input (\<lambda>line. set_config (\<lambda>cfg.
          cfg\<lparr>dependencies := parse_list (sanitize_input line)\<rparr>)),
        read_input (\<lambda>line. set_config (\<lambda>cfg.
          cfg\<lparr>menu_section := sanitize_input (or_default line ''99-Misc'')\<rparr>)),
        read_input (\<lambda>line. set_config (\<lambda>cfg.
          cfg\<lparr>maintainer := sanitize_input (or_default line ''Serenium Team'')\<rparr>)),
        asked ask_email (\<lambda>x cfg. cfg\<lparr>email := x\<rparr>) ] s"

section \<open>Construction and the two acquisition paths\<close>

text \<open>
  \<open>SereniumBuilder.__init__\<close>: a fresh record, the working directory as output directory,
  seven steps in total and none completed; a configuration file, when one is named, is
  loaded.
\<close>

text \<open>
  The state right after a builder has been constructed without a configuration file, in a
  process with the given file system, working directory and standard input.
\<close>

definition new_builder :: "filesystem \<Rightarrow> path \<Rightarrow> string list \<Rightarrow> state" where
  "new_builder fs wd lines =
    \<lparr> config = default_config, output_path = wd, steps_total = 7, steps_completed = 0,
      files = fs, cwd = wd, stdin = lines, logged = [], shown = [] \<rparr>"

definition init_builder :: "string option \<Rightarrow> state \<Rightarrow> state result" where
  "init_builder config_file w =
    (let s = w\<lparr>config := default_config, output_path := cwd w,
               steps_total := 7, steps_completed := 0\<rparr>
     in case config_file of
          None \<Rightarrow> Ok s
        | Some f \<Rightarrow> if f \<noteq> [] then load_config_from_file f s else Ok s)"

text \<open>
  The choice made in \<open>main\<close>: a loaded file that gives a name and a description is used
  as it is, otherwise the prompts run.
\<close>

definition from_file :: "string option \<Rightarrow> state \<Rightarrow> bool" where
  "from_file config_file s =
    (config_file \<noteq> None \<and> config_file \<noteq> Some [] \<and>
     name (config s) \<noteq> [] \<and> description (config s) \<noteq> [])"

definition acquire_config :: "string option \<Rightarrow> state \<Rightarrow> state result" where
  "acquire_config config_file w =
    and_then (init_builder config_file w)
      (\<lambda>s. if from_file config_file s then Ok s else get_user_input s)"

definition main_flow :: "string option \<Rightarrow> string \<Rightarrow> state \<Rightarrow> state result" where
  "main_flow config_file now w =
    and_then (acquire_config config_file w) (build_package now)"

section \<open>What the emission steps leave in place\<close>

text \<open>
  A relation between a state and a later one, used to follow a build through its steps:
  the configuration record is the same and every directory is still a directory.
\<close>

definition kept :: "state \<Rightarrow> state \<Rightarrow> bool" where
  "kept s s' =
    (config s' = config s
     \<and> (\<forall>q. lookup (files s) q = Some Dir \<longrightarrow> lookup (files s') q = Some Dir))"

text \<open>The text of the file at a path, when there is a text file.\<close>

definition file_text :: "filesystem \<Rightarrow> path \<Rightarrow> string option" where
  "file_text fs p = (case fs p of Some (File (Text t) m) \<Rightarrow> Some t | _ \<Rightarrow> None)"

section \<open>Properties of the string functions\<close>

lemma fold_remove_char: "fold remove_char cs s = filter (\<lambda>x. x \<notin> set cs) s"
  by (induction cs arbitrary: s) (auto simp: remove_char_def intro: filter_cong)

lemma set_dangerous_chars: "x \<in> set dangerous_chars \<longleftrightarrow> code_point x \<le> 5"
proof -
  have "x \<in> set dangerous_chars \<longleftrightarrow> of_char x \<in> (of_char ` set dangerous_chars :: nat set)"
    by (auto simp: inj_image_mem_iff[OF inj_of_char])
  also have "\<dots> \<longleftrightarrow> (of_char x :: nat) \<le> 5"
    by (auto simp: dangerous_chars_def)
  finally show ?thesis by (simp add: code_point_def)
qed

lemma set_strip: "set (strip s) \<subseteq> set s"
proof -
  have "set (rev (dropWhile isspace (rev (dropWhile isspace s)))) \<subseteq> set (dropWhile isspace s)"
    using set_dropWhileD[of _ isspace "rev (dropWhile isspace s)"] by auto
  also have "\<dots> \<subseteq> set s" using set_dropWhileD by fastforce
  finally show ?thesis by (simp add: strip_def lstrip_def rstrip_def)
qed

text \<open>A stripped string is empty or has no whitespace at either end.\<close>

lemma strip_ends:
  "strip s = [] \<or> (\<not> isspace (hd (strip s)) \<and> \<not> isspace (last (strip s)))"
proof (cases "strip s = []")
  case True then show ?thesis by simp
next
  case False
  define u where "u = dropWhile isspace s"
  define v where "v = dropWhile isspace (rev u)"
  have sv: "strip s = rev v" by (simp add: strip_def lstrip_def rstrip_def u_def v_def)
  with False have vne: "v \<noteq> []" by simp
  then have hv: "\<not> isspace (hd v)" unfolding v_def by (rule hd_dropWhile)
  have "rev u = takeWhile isspace (rev u) @ v" by (simp add: v_def)
  then have "u = rev v @ rev (takeWhile isspace (rev u))"
    by (metis rev_append rev_rev_ident)
  with vne have "hd u = hd (rev v)" by (metis hd_append2 rev_is_Nil_conv)
  moreover have "u \<noteq> []" using vne v_def by auto
  then have "\<not> isspace (hd u)" unfolding u_def by (rule hd_dropWhile)
  ultimately have "\<not> isspace (hd (rev v))" by simp
  moreover have "last (rev v) = hd v" using vne by (simp add: last_rev)
  ultimately show ?thesis using hv sv by simp
qed

lemma strip_fixed:
  assumes "t = [] \<or> (\<not> isspace (hd t) \<and> \<not> isspace (last t))"
  shows "strip t = t"
proof (cases "t = []")
  case True then show ?thesis by (simp add: strip_def lstrip_def rstrip_def)
next
  case False
  with assms have h: "\<not> isspace (hd t)" and l: "\<not> isspace (last t)" by auto
  from False h have a: "dropWhile isspace t = t" by (cases t) auto
  from False l have "dropWhile isspace (rev t) = rev t"
    by (cases "rev t") (auto simp: last_rev hd_rev)
  with a show ?thesis by (simp add: strip_def lstrip_def rstrip_def)
qed

lemma strip_idem: "strip (strip s) = strip s"
  by (rule strip_fixed) (rule strip_ends)

lemma sanitize_input_eq: "sanitize_input s = strip (filter (\<lambda>c. 5 < code_point c) s)"
proof -
  have "(\<lambda>x. x \<notin> set dangerous_chars) = (\<lambda>c. 5 < code_point c)"
    by (auto simp: set_dangerous_chars)
  then show ?thesis
    by (simp add: sanitize_input_def fold_remove_char strip_def lstrip_def rstrip_def)
qed

lemmas char_class_defs =
  isspace_def isalnum_def isdigit_ascii_def isalpha_ascii_def code_point_def

lemmas strip_defs = strip_def lstrip_def rstrip_def

section \<open>The sanitizer\<close>

text \<open>
  Claim C9. For every string \<open>s\<close>, \<open>sanitize_input s\<close> is \<open>s\<close> with every character of
  code 0 to 5 removed, wherever it stands, and then with the whitespace at both ends
  dropped; and sanitizing twice gives the same as sanitizing once.
\<close>

theorem sanitize_input_spec:
  "sanitize_input s = strip (filter (\<lambda>c. 5 < code_point c) s)
   \<and> sanitize_input (sanitize_input s) = sanitize_input s"
proof -
  let ?t = "sanitize_input s"
  have "set ?t \<subseteq> set (filter (\<lambda>c. 5 < code_point c) s)"
    unfolding sanitize_input_eq by (rule set_strip)
  then have "filter (\<lambda>c. 5 < code_point c) ?t = ?t" by (auto simp: filter_id_conv)
  then have "sanitize_input ?t = strip ?t" by (simp add: sanitize_input_eq)
  also have "\<dots> = ?t" unfolding sanitize_input_eq by (rule strip_idem)
  finally show ?thesis by (simp add: sanitize_input_eq)
qed

theorem sanitize_input_spec_witness:
  "sanitize_input ('' te'' @ [CHR 0x00, CHR 0x01] @ ''st '') = ''test''
   \<and> sanitize_input (sanitize_input ('' te'' @ [CHR 0x00, CHR 0x01] @ ''st '')) = ''test''"
  using sanitize_input_spec [of "'' te'' @ [CHR 0x00, CHR 0x01] @ ''st ''"]
  by (simp add: sanitize_input_eq strip_defs char_class_defs)

section \<open>The name validator\<close>

text \<open>
  Claim C7, as the code has it. \<open>validate_package_name\<close> raises a validation error
  exactly when the name is empty, is longer than 255 characters, holds one of the
  characters \<open>! # $ & * | ; : " < > ? / \ [ ] { }\<close>, starts with a character that is not
  alphanumeric, or holds a space. For every other name it succeeds, and what it returns
  is \<open>True\<close>.
\<close>

theorem validate_package_name_spec:
  "(if nm = [] \<or> 255 < length nm
       \<or> set nm \<inter> set (''!#$&*|;:'' @ [CHR 0x22] @ ''<>?/'' @ [CHR 0x5C] @ ''[]{}'') \<noteq> {}
       \<or> \<not> isalnum (hd nm) \<or> CHR '' '' \<in> set nm
    then \<exists>msg. validate_package_name nm = Inl (ValidationError msg)
    else validate_package_name nm = Inr (PyBool True))"
proof -
  have "list_ex (\<lambda>c. c \<in> invalid_chars) nm \<longleftrightarrow> set nm \<inter> invalid_chars \<noteq> {}"
    by (auto simp: list_ex_iff)
  then show ?thesis
    unfolding validate_package_name_def invalid_chars_def by auto
qed

theorem validate_package_name_spec_witness:
  "validate_package_name ''serenium-tool'' = Inr (PyBool True)
   \<and> (\<exists>msg. validate_package_name ''Test Package'' = Inl (ValidationError msg))"
  using validate_package_name_spec [of "''serenium-tool''"]
    validate_package_name_spec [of "''Test Package''"]
  by (simp add: char_class_defs)

text \<open>
  The claim as the specification words it has the validator return its input; at the name
  \<open>serenium-tool\<close> the result is \<open>True\<close>, not the name.
\<close>

theorem validate_package_name_returns_input_counterexample:
  "validate_package_name ''serenium-tool'' = Inr (PyBool True)
   \<and> validate_package_name ''serenium-tool'' \<noteq> Inr (PyStr ''serenium-tool'')"
  by (simp add: validate_package_name_def invalid_chars_def char_class_defs)

section \<open>The rendered control file and README\<close>

lemma py_contains_sublist: "py_contains sub s \<longleftrightarrow> sublist sub s"
  by (induction s) (auto simp: sublist_Cons_right)

lemma py_contains_append: "py_contains sub (pre @ sub @ post)"
  by (simp add: py_contains_sublist)

lemmas text_defs = py_lines_def newline_def dquote_def squote_def

text \<open>
  Claim C4, at a record with no dependencies. The \<open>Depends:\<close> line of the emitted control
  file should carry the placeholder \<open>${misc:Depends}\<close>. In both variants of the file the
  code writes \<open>${{misc:Depends}}\<close>, with the braces doubled, which is a different text.
\<close>

theorem control_text_empty_dependencies:
  "control_text (default_config\<lparr>name := ''test-package'', description := ''Test package''\<rparr>) =
     py_lines
      [ ''Source: test-package'', ''Section: misc'', ''Priority: optional'',
        ''Maintainer: Serenium Team <team@serenium.org>'',
        ''Build-Depends: debhelper-compat (= 13)'', ''Standards-Version: 4.6.0'', [],
        ''Package: test-package'', ''Architecture: all'',
        ''Depends: ${{misc:Depends}}'',
        ''Description: Test package'', '' '' ]
   \<and> control_text (default_config\<lparr>name := ''test-package'', description := ''Test package'',
                                    is_metapackage := True\<rparr>) =
     py_lines
      [ ''Source: test-package'', ''Section: metapackages'', ''Priority: optional'',
        ''Maintainer: Serenium Team <team@serenium.org>'',
        ''Build-Depends: debhelper-compat (= 13)'', ''Standards-Version: 4.6.0'', [],
        ''Package: test-package'', ''Architecture: all'',
        ''Depends: ${{misc:Depends}}'',
        ''Description: Test package'', '' '' ]
   \<and> ''Depends: ${{misc:Depends}}'' \<noteq> ''Depends: ${misc:Depends}''"
  by (simp add: control_text_def depends_field_def default_config_def)

text \<open>
  The two rendered texts of a record whose dependencies are \<open>python3\<close> and \<open>git\<close>.
\<close>

lemma dependencies_in_texts:
  assumes "dependencies cfg = [''python3'', ''git'']"
  shows "py_contains ''python3, git'' (control_text cfg)
       \<and> py_contains (''- python3'' @ newline @ ''- git'' @ newline) (readme_text cfg)"
proof
  have "\<exists>pre post. control_text cfg = pre @ ''python3, git'' @ post"
  proof (cases "is_metapackage cfg")
    case True
    show ?thesis
      apply (rule exI[of _ "py_lines [''Source: '' @ name cfg, ''Section: metapackages'',
         ''Priority: optional'', ''Maintainer: '' @ maintainer cfg @ '' <'' @ email cfg @ ''>'',
         ''Build-Depends: debhelper-compat (= 13)'', ''Standards-Version: 4.6.0'', [],
         ''Package: '' @ name cfg, ''Architecture: all''] @ ''Depends: ''"])
      apply (rule exI[of _ "py_lines [[], ''Description: '' @ description cfg, '' '' @ long_description cfg]"])
      using True assms by (simp add: control_text_def depends_field_def py_lines_def)
  next
    case False
    show ?thesis
      apply (rule exI[of _ "py_lines [''Source: '' @ name cfg, ''Section: misc'',
         ''Priority: optional'', ''Maintainer: '' @ maintainer cfg @ '' <'' @ email cfg @ ''>'',
         ''Build-Depends: debhelper-compat (= 13)'', ''Standards-Version: 4.6.0'', [],
         ''Package: '' @ name cfg, ''Architecture: all''] @ ''Depends: ''"])
      apply (rule exI[of _ "py_lines [[], ''Description: '' @ description cfg, '' '' @ long_description cfg]"])
      using False assms by (simp add: control_text_def depends_field_def py_lines_def)
  qed
  then show "py_contains ''python3, git'' (control_text cfg)"
    using py_contains_append by metis
next
  have "readme_text cfg =
      (readme_head cfg @ bullet_list ''## Included Tools'' (tools cfg) @ ''## Dependencies'' @ newline)
      @ (''- python3'' @ newline @ ''- git'' @ newline) @ (newline @ readme_tail cfg)"
    using assms by (simp add: readme_text_def bullet_list_def)
  then show "py_contains (''- python3'' @ newline @ ''- git'' @ newline) (readme_text cfg)"
    using py_contains_append by metis
qed

section \<open>The two acquisition paths\<close>

lemma and_then_Ok: "and_then r f = Ok s' \<longleftrightarrow> (\<exists>s1. r = Ok s1 \<and> f s1 = Ok s')"
  by (cases r) auto

lemma run_all_Nil_Ok: "run_all [] s = Ok s' \<longleftrightarrow> s' = s"
  by auto

lemma run_all_Cons_Ok:
  "run_all (f # fs) s = Ok s' \<longleftrightarrow> (\<exists>s1. f s = Ok s1 \<and> run_all fs s1 = Ok s')"
  by (simp add: and_then_Ok)

lemma read_input_Ok:
  "read_input k s = Ok s' \<longleftrightarrow>
     (\<exists>line rest. stdin s = line # rest \<and> k line (s\<lparr>stdin := rest\<rparr>) = Ok s')"
  by (auto simp: read_input_def split: list.splits)

lemma set_config_Ok: "set_config f s = Ok s' \<longleftrightarrow> s' = s\<lparr>config := f (config s)\<rparr>"
  by (auto simp: set_config_def)

lemma asked_Ok:
  "asked loop upd s = Ok s' \<longleftrightarrow>
     (\<exists>x rest. loop (stdin s) = Some (x, rest)
        \<and> s' = s\<lparr>config := upd x (config s), stdin := rest\<rparr>)"
  by (auto simp: asked_def split: option.splits)

lemmas steps_Ok = and_then_Ok run_all_Nil_Ok run_all_Cons_Ok read_input_Ok set_config_Ok asked_Ok

lemma prompt_desktop_fields_keeps:
  assumes "prompt_desktop_fields s = Ok s'"
  shows "is_metapackage (config s') = is_metapackage (config s)
       \<and> tools (config s') = tools (config s)
       \<and> create_desktop (config s') = create_desktop (config s)
       \<and> description (config s') = description (config s)
       \<and> long_description (config s') = long_description (config s)"
  using assms unfolding prompt_desktop_fields_def by (auto simp: steps_Ok)

lemma prompt_tools_and_desktop_metapackage:
  assumes "prompt_tools_and_desktop s = Ok s'"
  shows "is_metapackage (config s') = is_metapackage (config s)
       \<and> (is_metapackage (config s') \<longrightarrow> tools (config s') = [] \<and> \<not> create_desktop (config s'))
       \<and> description (config s') = description (config s)
       \<and> long_description (config s') = long_description (config s)"
proof (cases "is_metapackage (config s)")
  case True
  with assms show ?thesis by (auto simp: prompt_tools_and_desktop_def steps_Ok)
next
  case False
  with assms show ?thesis
    by (auto simp: prompt_tools_and_desktop_def steps_Ok split: if_splits
        dest!: prompt_desktop_fields_keeps)
qed

lemma prompt_descriptions_Ok:
  assumes "prompt_descriptions s = Ok s'"
  shows "\<exists>d l rest. stdin s = d # l # rest
      \<and> description (config s') = sanitize_input d
      \<and> long_description (config s') = or_default (sanitize_input l) (sanitize_input d)"
  using assms by (auto simp: prompt_descriptions_def steps_Ok)

text \<open>
  Claim C2, as the code has it. Whenever the interactive path completes, from whatever
  state it started, a record it leaves as a metapackage has no tools and no desktop entry.
\<close>

theorem interactive_metapackage_invariant:
  assumes "get_user_input s = Ok s'"
  shows "is_metapackage (config s') \<longrightarrow> tools (config s') = [] \<and> \<not> create_desktop (config s')"
proof -
  from assms obtain s4 s5 where
    t: "prompt_tools_and_desktop s4 = Ok s5" and
    rest: "run_all
      [ read_input (\<lambda>line. set_config (\<lambda>cfg.
          cfg\<lparr>dependencies := parse_list (sanitize_input line)\<rparr>)),
        read_input (\<lambda>line. set_config (\<lambda>cfg.
          cfg\<lparr>menu_section := sanitize_input (or_default line ''99-Misc'')\<rparr>)),
        read_input (\<lambda>line. set_config (\<lambda>cfg.
          cfg\<lparr>maintainer := sanitize_input (or_default line ''Serenium Team'')\<rparr>)),
        asked ask_email (\<lambda>x cfg. cfg\<lparr>email := x\<rparr>) ] s5 = Ok s'"
    unfolding get_user_input_def by (auto simp: and_then_Ok)
  from rest have "is_metapackage (config s') = is_metapackage (config s5)
      \<and> tools (config s') = tools (config s5)
      \<and> create_desktop (config s') = create_desktop (config s5)"
    by (auto simp: steps_Ok)
  with prompt_tools_and_desktop_metapackage[OF t] show ?thesis by simp
qed

text \<open>
  Claim C6, as the code has it. Whenever the interactive path completes, the description
  is the sanitized answer to the description prompt, and the long description is the
  sanitized answer to the prompt after it when that is not empty, and the description
  otherwise. So the long description is empty only if the description is empty too.
  The two answers are the first two lines left once a name and a version have been
  accepted.
\<close>

theorem interactive_long_description:
  assumes "get_user_input s = Ok s'"
  shows "(\<exists>n r1 v d l rest.
            ask_name (stdin s) = Some (n, r1)
          \<and> ask_version r1 = Some (v, d # l # rest)
          \<and> description (config s') = sanitize_input d
          \<and> long_description (config s')
              = (if sanitize_input l \<noteq> [] then sanitize_input l else description (config s')))
       \<and> (description (config s') \<noteq> [] \<longrightarrow> long_description (config s') \<noteq> [])"
proof -
  from assms obtain s1 s2 s3 s4 s5 where
    a1: "asked ask_name (\<lambda>x cfg. cfg\<lparr>name := x\<rparr>) s = Ok s1" and
    a2: "asked ask_version (\<lambda>x cfg. cfg\<lparr>version := x\<rparr>) s1 = Ok s2" and
    d: "prompt_descriptions s2 = Ok s3" and
    ty: "asked ask_package_type (\<lambda>x cfg. cfg\<lparr>is_metapackage := x\<rparr>) s3 = Ok s4" and
    t: "prompt_tools_and_desktop s4 = Ok s5" and
    rest: "run_all
      [ read_input (\<lambda>line. set_config (\<lambda>cfg.
          cfg\<lparr>dependencies := parse_list (sanitize_input line)\<rparr>)),
        read_input (\<lambda>line. set_config (\<lambda>cfg.
          cfg\<lparr>menu_section := sanitize_input (or_default line ''99-Misc'')\<rparr>)),
        read_input (\<lambda>line. set_config (\<lambda>cfg.
          cfg\<lparr>maintainer := sanitize_input (or_default line ''Serenium Team'')\<rparr>)),
        asked ask_email (\<lambda>x cfg. cfg\<lparr>email := x\<rparr>) ] s5 = Ok s'"
    unfolding get_user_input_def by (auto simp: and_then_Ok)
  from a1 obtain n r1 where n: "ask_name (stdin s) = Some (n, r1)" and i1: "stdin s1 = r1"
    by (auto simp: asked_Ok)
  from a2 i1 obtain v r2 where v: "ask_version r1 = Some (v, r2)" and i2: "stdin s2 = r2"
    by (auto simp: asked_Ok)
  from prompt_descriptions_Ok [OF d] i2 obtain dl l rest' where
    r2: "r2 = dl # l # rest'" and
    d3: "description (config s3) = sanitize_input dl" and
    l3: "long_description (config s3)
          = (if sanitize_input l \<noteq> [] then sanitize_input l else sanitize_input dl)"
    by (auto simp: or_default_def)
  from rest have e5: "description (config s') = description (config s5)
      \<and> long_description (config s') = long_description (config s5)"
    by (auto simp: steps_Ok)
  from ty have e4: "description (config s4) = description (config s3)
      \<and> long_description (config s4) = long_description (config s3)"
    by (auto simp: steps_Ok)
  from e4 e5 prompt_tools_and_desktop_metapackage [OF t]
  have e: "description (config s') = description (config s3)
      \<and> long_description (config s') = long_description (config s3)"
    by simp
  have fb: "long_description (config s')
      = (if sanitize_input l \<noteq> [] then sanitize_input l else description (config s'))"
    using e d3 l3 by simp
  have ex: "\<exists>n r1 v d l rest.
            ask_name (stdin s) = Some (n, r1)
          \<and> ask_version r1 = Some (v, d # l # rest)
          \<and> description (config s') = sanitize_input d
          \<and> long_description (config s')
              = (if sanitize_input l \<noteq> [] then sanitize_input l else description (config s'))"
    apply (rule exI [of _ n], rule exI [of _ r1], rule exI [of _ v])
    apply (rule exI [of _ dl], rule exI [of _ l], rule exI [of _ rest'])
    using n v r2 e d3 fb by simp
  moreover have "description (config s') \<noteq> [] \<longrightarrow> long_description (config s') \<noteq> []"
    using fb by auto
  ultimately show ?thesis by blast
qed

lemma is_ok_conv: "is_ok r \<longleftrightarrow> (\<exists>s. r = Ok s)"
  by (cases r) auto

theorem interactive_metapackage_invariant_witness:
  "is_ok (get_user_input (new_builder Map.empty [''work'']
      [''tool'', [], ''d'', [], ''2'', [], [], [], []]))
   \<and> is_metapackage (config (state_of (get_user_input (new_builder Map.empty [''work'']
      [''tool'', [], ''d'', [], ''2'', [], [], [], []]))))
   \<and> tools (config (state_of (get_user_input (new_builder Map.empty [''work'']
      [''tool'', [], ''d'', [], ''2'', [], [], [], []])))) = []
   \<and> \<not> create_desktop (config (state_of (get_user_input (new_builder Map.empty [''work'']
      [''tool'', [], ''d'', [], ''2'', [], [], [], []]))))"
proof -
  let ?r = "get_user_input (new_builder Map.empty [''work'']
      [''tool'', [], ''d'', [], ''2'', [], [], [], []])"
  have ok: "is_ok ?r" by code_simp
  then obtain s1 where r: "?r = Ok s1" by (auto simp: is_ok_conv)
  have m: "is_metapackage (config (state_of ?r))" by code_simp
  from interactive_metapackage_invariant [OF r] r m ok show ?thesis by simp
qed

text \<open>
  The file-load path does not keep the invariant of C2: a file that sets
  \<open>is_metapackage\<close>, \<open>tools\<close> and \<open>create_desktop\<close> together is taken as it is, and since
  it gives a name and a description no prompt runs.
\<close>

theorem file_load_metapackage_counterexample:
  "is_ok (acquire_config (Some ''pkg.yaml'')
      (new_builder
        [[''work'', ''pkg.yaml''] \<mapsto> File (YamlDoc
           [(''name'', PyStr ''meta''), (''description'', PyStr ''A metapackage''),
            (''is_metapackage'', PyBool True), (''tools'', PyList [''nmap'']),
            (''create_desktop'', PyBool True)]) UmaskDefault]
        [''work''] []))
   \<and> config (state_of (acquire_config (Some ''pkg.yaml'')
      (new_builder
        [[''work'', ''pkg.yaml''] \<mapsto> File (YamlDoc
           [(''name'', PyStr ''meta''), (''description'', PyStr ''A metapackage''),
            (''is_metapackage'', PyBool True), (''tools'', PyList [''nmap'']),
            (''create_desktop'', PyBool True)]) UmaskDefault]
        [''work''] [])))
     = default_config\<lparr>name := ''meta'', description := ''A metapackage'',
         is_metapackage := True, tools := [''nmap''], create_desktop := True\<rparr>"
  by code_simp

theorem interactive_long_description_witness:
  "is_ok (get_user_input (new_builder Map.empty [''work'']
      [''tool'', [], '' A tool'', ''  '', ''2'', [], [], [], []]))
   \<and> description (config (state_of (get_user_input (new_builder Map.empty [''work'']
      [''tool'', [], '' A tool'', ''  '', ''2'', [], [], [], []])))) = ''A tool''
   \<and> long_description (config (state_of (get_user_input (new_builder Map.empty [''work'']
      [''tool'', [], '' A tool'', ''  '', ''2'', [], [], [], []])))) = ''A tool''"
proof -
  let ?in = "[''tool'', [], '' A tool'', ''  '', ''2'', [], [], [], []]"
  let ?r = "get_user_input (new_builder Map.empty [''work''] ?in)"
  have ok: "is_ok ?r" by code_simp
  then obtain s1 where r: "?r = Ok s1" by (auto simp: is_ok_conv)
  have an: "ask_name (stdin (new_builder Map.empty [''work''] ?in))
      = Some (''tool'', [[], '' A tool'', ''  '', ''2'', [], [], [], []])"
    by code_simp
  have av: "ask_version [[], '' A tool'', ''  '', ''2'', [], [], [], []]
      = Some (''1.0.0'', ['' A tool'', ''  '', ''2'', [], [], [], []])"
    by code_simp
  have sd: "sanitize_input '' A tool'' = ''A tool''" by code_simp
  have sl: "sanitize_input ''  '' = []" by code_simp
  from interactive_long_description [OF r] obtain n r1 v d l rest where
    "ask_name (stdin (new_builder Map.empty [''work''] ?in)) = Some (n, r1)"
    "ask_version r1 = Some (v, d # l # rest)"
    "description (config s1) = sanitize_input d"
    "long_description (config s1)
       = (if sanitize_input l \<noteq> [] then sanitize_input l else description (config s1))"
    by blast
  with an av sd sl have "description (config s1) = ''A tool''
      \<and> long_description (config s1) = ''A tool''"
    by auto
  with r ok show ?thesis by simp
qed

text \<open>
  Two finalized records with an empty long description: one from the prompts, where the
  description and the long description were both left blank, and one from a file that
  gives a name and a description and no long description.
\<close>

theorem empty_long_description_counterexample:
  "is_ok (acquire_config None (new_builder Map.empty [''work'']
      [''tool'', [], [], [], ''2'', [], [], [], []]))
   \<and> long_description (config (state_of (acquire_config None (new_builder Map.empty [''work'']
      [''tool'', [], [], [], ''2'', [], [], [], []])))) = []
   \<and> is_ok (acquire_config (Some ''pkg.yaml'')
      (new_builder
        [[''work'', ''pkg.yaml''] \<mapsto> File (YamlDoc
           [(''name'', PyStr ''test-package''), (''version'', PyStr ''2.0.0''),
            (''description'', PyStr ''Test package'')]) UmaskDefault]
        [''work''] []))
   \<and> config (state_of (acquire_config (Some ''pkg.yaml'')
      (new_builder
        [[''work'', ''pkg.yaml''] \<mapsto> File (YamlDoc
           [(''name'', PyStr ''test-package''), (''version'', PyStr ''2.0.0''),
            (''description'', PyStr ''Test package'')]) UmaskDefault]
        [''work''] [])))
     = default_config\<lparr>name := ''test-package'', version := ''2.0.0'',
         description := ''Test package'', long_description := []\<rparr>"
  by code_simp

section \<open>Saving and re-loading the configuration\<close>

lemma load_items_config_data:
  "load_items (config_data cfg) cfg0 = Some (cfg\<lparr>output_dir := output_dir cfg0\<rparr>)"
  by (cases cfg, cases cfg0)
     (simp add: config_data_def field_names_def setattr_config_def str_field_def
        bool_field_def list_field_def)

lemma path_suffix_config: "path_suffix (p @ [''serenium-config.yaml'']) = ''.yaml''"
  by (simp add: path_suffix_def)

lemma lower_yaml: "lower ''.yaml'' = ''.yaml''"
  by (simp add: lower_def lower_char_def code_point_def)

lemma write_file_Ok:
  assumes "write_file p x fs = Ok fs1"
  shows "\<exists>m. fs1 = fs(p \<mapsto> File x m)"
  using assms by (auto simp: write_file_def split: if_splits option.splits node.splits)

lemma on_files_Ok:
  "on_files f s = Ok s1 \<longleftrightarrow> (\<exists>fs1. f (files s) = Ok fs1 \<and> s1 = s\<lparr>files := fs1\<rparr>)"
  by (auto simp: on_files_def split: result.splits)

lemma reload_saved:
  assumes "save_config package_path s = Ok s1"
    and "join (cwd s) f = Some (package_path @ [''serenium-config.yaml''])"
    and "f \<noteq> []"
  shows "\<exists>s2. init_builder (Some f) s1 = Ok s2
            \<and> config s2 = (config s)\<lparr>output_dir := ''.''\<rparr>"
proof -
  let ?p = "package_path @ [''serenium-config.yaml'']"
  from assms(1) obtain m where
    s1: "s1 = s\<lparr>files := (files s)(?p \<mapsto> File (YamlDoc (config_data (config s))) m)\<rparr>"
    unfolding save_config_def on_files_Ok using write_file_Ok by blast
  have d: "output_dir default_config = ''.''" by (simp add: default_config_def)
  show ?thesis
    using assms(2,3)
    by (simp add: init_builder_def load_config_from_file_def s1 lookup_def
        path_suffix_config lower_yaml apply_data_def load_items_config_data d)
qed

lemma join_saved_config:
  "join [''work''] ''pkg-1.0.0/serenium-config.yaml''
     = Some ([''work'', ''pkg-1.0.0''] @ [''serenium-config.yaml''])"
  by code_simp

lemma save_config_example:
  "save_config [''work'', ''pkg-1.0.0'']
      ((new_builder [[''work''] \<mapsto> Dir, [''work'', ''pkg-1.0.0''] \<mapsto> Dir] [''work''] [])
        \<lparr>config := cfg\<rparr>)
   = Ok ((new_builder
        [[''work''] \<mapsto> Dir, [''work'', ''pkg-1.0.0''] \<mapsto> Dir,
         [''work'', ''pkg-1.0.0'', ''serenium-config.yaml''] \<mapsto>
           File (YamlDoc (config_data cfg)) UmaskDefault]
        [''work''] [])
        \<lparr>config := cfg\<rparr>)"
  by (simp add: save_config_def on_files_def write_file_def lookup_def new_builder_def)

text \<open>
  Claim C8, as the code has it. When \<open>save_config\<close> has written \<open>serenium-config.yaml\<close>
  and a fresh builder is constructed from that file, the builder's record equals the
  saved one in every field but \<open>output_dir\<close>, which is not written and so has its default.
\<close>

theorem config_round_trip:
  assumes "save_config package_path s = Ok s1"
    and "join (cwd s) f = Some (package_path @ [''serenium-config.yaml''])"
    and "f \<noteq> []"
  shows "\<exists>s2. init_builder (Some f) s1 = Ok s2
            \<and> config s2 = (config s)\<lparr>output_dir := ''.''\<rparr>"
  using assms by (rule reload_saved)

theorem config_round_trip_witness:
  "save_config [''work'', ''pkg-1.0.0'']
      ((new_builder [[''work''] \<mapsto> Dir, [''work'', ''pkg-1.0.0''] \<mapsto> Dir] [''work''] [])
        \<lparr>config := default_config\<lparr>name := ''pkg'', tools := [''nmap'']\<rparr>\<rparr>)
   = Ok ((new_builder
        [[''work''] \<mapsto> Dir, [''work'', ''pkg-1.0.0''] \<mapsto> Dir,
         [''work'', ''pkg-1.0.0'', ''serenium-config.yaml''] \<mapsto>
           File (YamlDoc (config_data (default_config\<lparr>name := ''pkg'', tools := [''nmap'']\<rparr>)))
             UmaskDefault]
        [''work''] [])
        \<lparr>config := default_config\<lparr>name := ''pkg'', tools := [''nmap'']\<rparr>\<rparr>)
   \<and> join [''work''] ''pkg-1.0.0/serenium-config.yaml''
       = Some ([''work'', ''pkg-1.0.0''] @ [''serenium-config.yaml''])
   \<and> config (state_of (init_builder (Some ''pkg-1.0.0/serenium-config.yaml'')
       ((new_builder
        [[''work''] \<mapsto> Dir, [''work'', ''pkg-1.0.0''] \<mapsto> Dir,
         [''work'', ''pkg-1.0.0'', ''serenium-config.yaml''] \<mapsto>
           File (YamlDoc (config_data (default_config\<lparr>name := ''pkg'', tools := [''nmap'']\<rparr>)))
             UmaskDefault]
        [''work''] [])
        \<lparr>config := default_config\<lparr>name := ''pkg'', tools := [''nmap'']\<rparr>\<rparr>)))
     = default_config\<lparr>name := ''pkg'', tools := [''nmap'']\<rparr>"
proof -
  let ?cfg = "default_config\<lparr>name := ''pkg'', tools := [''nmap'']\<rparr>"
  let ?s = "(new_builder [[''work''] \<mapsto> Dir, [''work'', ''pkg-1.0.0''] \<mapsto> Dir] [''work''] [])
        \<lparr>config := ?cfg\<rparr>"
  note r = save_config_example [of ?cfg]
  have j: "join (cwd ?s) ''pkg-1.0.0/serenium-config.yaml''
       = Some ([''work'', ''pkg-1.0.0''] @ [''serenium-config.yaml''])"
    using join_saved_config by (simp add: new_builder_def)
  have ne: "''pkg-1.0.0/serenium-config.yaml'' \<noteq> []" by simp
  have c: "(config ?s)\<lparr>output_dir := ''.''\<rparr> = ?cfg"
    by (simp add: default_config_def)
  from config_round_trip [OF r j ne] obtain s2 where
    "init_builder (Some ''pkg-1.0.0/serenium-config.yaml'')
       ((new_builder
        [[''work''] \<mapsto> Dir, [''work'', ''pkg-1.0.0''] \<mapsto> Dir,
         [''work'', ''pkg-1.0.0'', ''serenium-config.yaml''] \<mapsto>
           File (YamlDoc (config_data ?cfg)) UmaskDefault]
        [''work''] [])
        \<lparr>config := ?cfg\<rparr>) = Ok s2" and "config s2 = (config ?s)\<lparr>output_dir := ''.''\<rparr>"
    by blast
  with c have "config (state_of (init_builder (Some ''pkg-1.0.0/serenium-config.yaml'')
       ((new_builder
        [[''work''] \<mapsto> Dir, [''work'', ''pkg-1.0.0''] \<mapsto> Dir,
         [''work'', ''pkg-1.0.0'', ''serenium-config.yaml''] \<mapsto>
           File (YamlDoc (config_data ?cfg)) UmaskDefault]
        [''work''] [])
        \<lparr>config := ?cfg\<rparr>))) = ?cfg"
    by simp
  with r join_saved_config show ?thesis by blast
qed

text \<open>
  A record whose \<open>output_dir\<close> is not the default does not come back equal in that field:
  the claim C8 as the specification words it fails there.
\<close>

theorem output_dir_round_trip_counterexample:
  "output_dir (default_config\<lparr>name := ''pkg'', output_dir := ''build''\<rparr>)
     \<noteq> output_dir default_config
   \<and> save_config [''work'', ''pkg-1.0.0'']
      ((new_builder [[''work''] \<mapsto> Dir, [''work'', ''pkg-1.0.0''] \<mapsto> Dir] [''work''] [])
        \<lparr>config := default_config\<lparr>name := ''pkg'', output_dir := ''build''\<rparr>\<rparr>)
   = Ok ((new_builder
        [[''work''] \<mapsto> Dir, [''work'', ''pkg-1.0.0''] \<mapsto> Dir,
         [''work'', ''pkg-1.0.0'', ''serenium-config.yaml''] \<mapsto>
           File (YamlDoc (config_data
             (default_config\<lparr>name := ''pkg'', output_dir := ''build''\<rparr>))) UmaskDefault]
        [''work''] [])
        \<lparr>config := default_config\<lparr>name := ''pkg'', output_dir := ''build''\<rparr>\<rparr>)
   \<and> is_ok (init_builder (Some ''pkg-1.0.0/serenium-config.yaml'')
       ((new_builder
        [[''work''] \<mapsto> Dir, [''work'', ''pkg-1.0.0''] \<mapsto> Dir,
         [''work'', ''pkg-1.0.0'', ''serenium-config.yaml''] \<mapsto>
           File (YamlDoc (config_data
             (default_config\<lparr>name := ''pkg'', output_dir := ''build''\<rparr>))) UmaskDefault]
        [''work''] [])
        \<lparr>config := default_config\<lparr>name := ''pkg'', output_dir := ''build''\<rparr>\<rparr>))
   \<and> output_dir (config (state_of (init_builder (Some ''pkg-1.0.0/serenium-config.yaml'')
       ((new_builder
        [[''work''] \<mapsto> Dir, [''work'', ''pkg-1.0.0''] \<mapsto> Dir,
         [''work'', ''pkg-1.0.0'', ''serenium-config.yaml''] \<mapsto>
           File (YamlDoc (config_data
             (default_config\<lparr>name := ''pkg'', output_dir := ''build''\<rparr>))) UmaskDefault]
        [''work''] [])
        \<lparr>config := default_config\<lparr>name := ''pkg'', output_dir := ''build''\<rparr>\<rparr>))))
     = ''.''"
proof -
  let ?cfg = "default_config\<lparr>name := ''pkg'', output_dir := ''build''\<rparr>"
  let ?s = "(new_builder [[''work''] \<mapsto> Dir, [''work'', ''pkg-1.0.0''] \<mapsto> Dir] [''work''] [])
        \<lparr>config := ?cfg\<rparr>"
  note r = save_config_example [of ?cfg]
  have j: "join (cwd ?s) ''pkg-1.0.0/serenium-config.yaml''
       = Some ([''work'', ''pkg-1.0.0''] @ [''serenium-config.yaml''])"
    using join_saved_config by (simp add: new_builder_def)
  have ne: "''pkg-1.0.0/serenium-config.yaml'' \<noteq> []" by simp
  from reload_saved [OF r j ne] obtain s2 where
    i: "init_builder (Some ''pkg-1.0.0/serenium-config.yaml'')
       ((new_builder
        [[''work''] \<mapsto> Dir, [''work'', ''pkg-1.0.0''] \<mapsto> Dir,
         [''work'', ''pkg-1.0.0'', ''serenium-config.yaml''] \<mapsto>
           File (YamlDoc (config_data ?cfg)) UmaskDefault]
        [''work''] [])
        \<lparr>config := ?cfg\<rparr>) = Ok s2" and c: "config s2 = (config ?s)\<lparr>output_dir := ''.''\<rparr>"
    by blast
  have d: "output_dir ?cfg \<noteq> output_dir default_config" by (simp add: default_config_def)
  from c have o: "output_dir (config s2) = ''.''" by simp
  show ?thesis
    apply (intro conjI)
       apply (rule d)
      apply (rule r)
     apply (simp only: i is_ok.simps)
    apply (simp only: i state_of.simps o)
    done
qed

section \<open>The build orchestrator\<close>

text \<open>
  Claim C3. When the target directory \<open>name-version\<close> exists, as a directory or as a
  file, and the line read in answer to the overwrite question is not \<open>y\<close> once stripped
  and lowered, \<open>build_package\<close> returns normally and the state is the one it started in,
  less the line read: no file or directory is removed, written or changed, nothing is
  logged, no step is counted and no emission step runs.
\<close>

theorem build_package_declined:
  assumes "join (output_path s) (name (config s) @ ''-'' @ version (config s)) = Some package_path"
    and "lookup (files s) package_path = Some Dir
         \<or> (\<exists>x m. lookup (files s) package_path = Some (File x m))"
    and "stdin s = response # rest"
    and "lower (strip response) \<noteq> ''y''"
  shows "build_package now s = Ok (s\<lparr>stdin := rest\<rparr>)"
  using assms by (auto simp: build_package_def)

theorem build_package_declined_witness:
  "join [''work''] (''pkg'' @ ''-'' @ ''1.0.0'') = Some [''work'', ''pkg-1.0.0'']
   \<and> lower (strip '' N '') \<noteq> ''y''
   \<and> build_package ''now''
       ((new_builder
          [[''work''] \<mapsto> Dir, [''work'', ''pkg-1.0.0''] \<mapsto> Dir,
           [''work'', ''pkg-1.0.0'', ''notes.txt''] \<mapsto> File (Text ''keep'') UmaskDefault]
          [''work''] ['' N '', ''more''])
        \<lparr>config := default_config\<lparr>name := ''pkg'', description := ''d''\<rparr>\<rparr>)
     = Ok ((new_builder
          [[''work''] \<mapsto> Dir, [''work'', ''pkg-1.0.0''] \<mapsto> Dir,
           [''work'', ''pkg-1.0.0'', ''notes.txt''] \<mapsto> File (Text ''keep'') UmaskDefault]
          [''work''] [''more''])
        \<lparr>config := default_config\<lparr>name := ''pkg'', description := ''d''\<rparr>\<rparr>)"
proof -
  let ?fs = "[[''work''] \<mapsto> Dir, [''work'', ''pkg-1.0.0''] \<mapsto> Dir,
           [''work'', ''pkg-1.0.0'', ''notes.txt''] \<mapsto> File (Text ''keep'') UmaskDefault]"
  let ?s = "(new_builder ?fs [''work''] ['' N '', ''more''])
        \<lparr>config := default_config\<lparr>name := ''pkg'', description := ''d''\<rparr>\<rparr>"
  have j0: "join [''work''] (''pkg'' @ ''-'' @ ''1.0.0'') = Some [''work'', ''pkg-1.0.0'']"
    by code_simp
  have j: "join (output_path ?s) (name (config ?s) @ ''-'' @ version (config ?s))
      = Some [''work'', ''pkg-1.0.0'']"
    using j0 by (simp add: new_builder_def default_config_def)
  have e: "lookup (files ?s) [''work'', ''pkg-1.0.0''] = Some Dir
         \<or> (\<exists>x m. lookup (files ?s) [''work'', ''pkg-1.0.0''] = Some (File x m))"
    by (simp add: new_builder_def lookup_def)
  have i: "stdin ?s = '' N '' # [''more'']" by (simp add: new_builder_def)
  have n: "lower (strip '' N '') \<noteq> ''y''" by code_simp
  have u: "?s\<lparr>stdin := [''more'']\<rparr> = (new_builder ?fs [''work''] [''more''])
        \<lparr>config := default_config\<lparr>name := ''pkg'', description := ''d''\<rparr>\<rparr>"
    by (simp add: new_builder_def)
  from build_package_declined [OF j e i n, of "''now''"] j0 n u show ?thesis by simp
qed

text \<open>
  Claim C5, at a fresh builder whose target directory does not exist. The counter starts
  at 0 and each report is one above the last, but a completed run reports eight steps
  against a total of seven: the last report is \<open>8\<close> of \<open>7\<close>.
\<close>

theorem build_package_progress_exceeds_total:
  "is_ok (build_package ''now''
      ((new_builder [[''work''] \<mapsto> Dir] [''work''] [])
         \<lparr>config := default_config\<lparr>name := ''pkg'', description := ''d''\<rparr>\<rparr>))
   \<and> steps_completed ((new_builder [[''work''] \<mapsto> Dir] [''work''] [])
         \<lparr>config := default_config\<lparr>name := ''pkg'', description := ''d''\<rparr>\<rparr>) = 0
   \<and> shown (state_of (build_package ''now''
      ((new_builder [[''work''] \<mapsto> Dir] [''work''] [])
         \<lparr>config := default_config\<lparr>name := ''pkg'', description := ''d''\<rparr>\<rparr>)))
     = [ (1, 7, ''Creating Debian packaging structure''),
         (2, 7, ''Creating package files''),
         (3, 7, ''Creating desktop entry''),
         (4, 7, ''Setting up menu structure''),
         (5, 7, ''Creating build script''),
         (6, 7, ''Generating documentation''),
         (7, 7, ''Saving configuration''),
         (8, 7, ''Finalizing package'') ]
   \<and> steps_completed (state_of (build_package ''now''
      ((new_builder [[''work''] \<mapsto> Dir] [''work''] [])
         \<lparr>config := default_config\<lparr>name := ''pkg'', description := ''d''\<rparr>\<rparr>))) = 8"
  by code_simp

section \<open>The menu directory\<close>

lemma kept_refl: "kept s s"
  by (simp add: kept_def)

lemma kept_trans: "kept a b \<Longrightarrow> kept b c \<Longrightarrow> kept a c"
  by (simp add: kept_def)

lemma mkdirs_keeps_dir:
  "mkdirs base cs fs = Ok fs' \<Longrightarrow> lookup fs q = Some Dir \<Longrightarrow> lookup fs' q = Some Dir"
proof (induction cs arbitrary: base fs)
  case Nil
  then show ?case by simp
next
  case (Cons c cs)
  show ?case
  proof (cases "lookup fs (base @ [c])")
    case None
    with Cons.prems(1) have m: "mkdirs (base @ [c]) cs (fs(base @ [c] \<mapsto> Dir)) = Ok fs'"
      by simp
    from Cons.prems(2) have "lookup (fs(base @ [c] \<mapsto> Dir)) q = Some Dir"
      by (auto simp: lookup_def)
    with Cons.IH [OF m] show ?thesis .
  next
    case (Some n)
    with Cons.prems(1) have "n = Dir" and "mkdirs (base @ [c]) cs fs = Ok fs'"
      by (cases n; simp)+
    with Cons.IH Cons.prems(2) show ?thesis by blast
  qed
qed



lemma mkdir_parents_keeps_dir:
  "mkdir_parents p fs = Ok fs' \<Longrightarrow> lookup fs q = Some Dir \<Longrightarrow> lookup fs' q = Some Dir"
  unfolding mkdir_parents_def by (rule mkdirs_keeps_dir)

lemma mkdir_exist_ok_keeps_dir:
  "mkdir_exist_ok p fs = Ok fs' \<Longrightarrow> lookup fs q = Some Dir \<Longrightarrow> lookup fs' q = Some Dir"
  by (auto simp: mkdir_exist_ok_def lookup_def split: if_splits option.splits node.splits)

lemma write_file_keeps_dir:
  "write_file p x fs = Ok fs' \<Longrightarrow> lookup fs q = Some Dir \<Longrightarrow> lookup fs' q = Some Dir"
  by (auto simp: write_file_def lookup_def split: if_splits option.splits node.splits)

lemma write_text_keeps_dir:
  "write_text p t fs = Ok fs' \<Longrightarrow> lookup fs q = Some Dir \<Longrightarrow> lookup fs' q = Some Dir"
  unfolding write_text_def by (rule write_file_keeps_dir)

lemma chmod_keeps_dir:
  "chmod p m fs = Ok fs' \<Longrightarrow> lookup fs q = Some Dir \<Longrightarrow> lookup fs' q = Some Dir"
  by (auto simp: chmod_def lookup_def split: if_splits option.splits node.splits)


lemma symlink_to_keeps_dir:
  "symlink_to p t fs = Ok fs' \<Longrightarrow> lookup fs q = Some Dir \<Longrightarrow> lookup fs' q = Some Dir"
  by (auto simp: symlink_to_def lookup_def split: if_splits option.splits node.splits)

lemmas keeps_dir =
  mkdir_parents_keeps_dir mkdir_exist_ok_keeps_dir write_file_keeps_dir write_text_keeps_dir
  chmod_keeps_dir symlink_to_keeps_dir

lemma on_files_kept:
  assumes "on_files f s = Ok s'"
    and "\<And>fs fs' q. f fs = Ok fs' \<Longrightarrow> lookup fs q = Some Dir \<Longrightarrow> lookup fs' q = Some Dir"
  shows "kept s s'"
  using assms by (auto simp: on_files_Ok kept_def)

lemma on_files_ops_kept:
  "on_files (mkdir_parents p) s = Ok s' \<Longrightarrow> kept s s'"
  "on_files (mkdir_exist_ok p) s = Ok s' \<Longrightarrow> kept s s'"
  "on_files (write_file p x) s = Ok s' \<Longrightarrow> kept s s'"
  "on_files (write_text p t) s = Ok s' \<Longrightarrow> kept s s'"
  "on_files (chmod p m) s = Ok s' \<Longrightarrow> kept s s'"
  "on_files (symlink_to p t) s = Ok s' \<Longrightarrow> kept s s'"
  by (erule on_files_kept, erule keeps_dir, assumption)+

lemma logger_kept: "logger lv msg s = Ok s' \<Longrightarrow> kept s s'"
  by (auto simp: logger_def kept_def)


lemma at_path_Ok: "at_path po k s = Ok s' \<longleftrightarrow> (\<exists>p. po = Some p \<and> k p s = Ok s')"
  by (cases po) auto

lemma at_path_kept:
  assumes "at_path po k s = Ok s'" and "\<And>p a b. k p a = Ok b \<Longrightarrow> kept a b"
  shows "kept s s'"
  using assms by (auto simp: at_path_Ok)

lemma run_all_kept:
  assumes "run_all fs s = Ok s'"
    and "\<And>f a b. f \<in> set fs \<Longrightarrow> f a = Ok b \<Longrightarrow> kept a b"
  shows "kept s s'"
  using assms
proof (induction fs arbitrary: s)
  case Nil
  then show ?case by (simp add: kept_refl)
next
  case (Cons f fs)
  from Cons.prems(1) obtain s1 where f: "f s = Ok s1" and r: "run_all fs s1 = Ok s'"
    by (auto simp: and_then_Ok)
  from f Cons.prems(2) [of f s s1] have "kept s s1" by simp
  moreover from r Cons.prems(2) have "kept s1 s'" by (intro Cons.IH) auto
  ultimately show ?case by (rule kept_trans)
qed








lemma logger_Ok: "logger lv msg s = Ok s' \<longleftrightarrow> s' = s\<lparr>logged := logged s @ [(lv, msg)]\<rparr>"
  by (auto simp: logger_def)


lemma create_menu_structure_kept:
  "create_menu_structure p s = Ok s' \<Longrightarrow> kept s s'"
  unfolding create_menu_structure_def Let_def
  by (auto simp del: run_all.simps simp: kept_refl split: if_splits
      elim!: run_all_kept at_path_kept on_files_ops_kept logger_kept)




section \<open>The emitted control file and README\<close>

lemma write_file_other:
  "write_file p x fs = Ok fs' \<Longrightarrow> q \<noteq> p \<Longrightarrow> fs' q = fs q"
  by (auto simp: write_file_def split: if_splits option.splits node.splits)

lemma chmod_other:
  "chmod p m fs = Ok fs' \<Longrightarrow> q \<noteq> p \<Longrightarrow> fs' q = fs q"
  by (auto simp: chmod_def lookup_def split: if_splits option.splits node.splits)

lemma mkdir_exist_ok_other:
  "mkdir_exist_ok p fs = Ok fs' \<Longrightarrow> q \<noteq> p \<Longrightarrow> fs' q = fs q"
  by (auto simp: mkdir_exist_ok_def split: if_splits option.splits node.splits)

text \<open>
  After \<open>create_debian_structure\<close> the file \<open>debian/control\<close> holds the control text: the
  later writes of the step go to other paths.
\<close>

lemma control_file_written:
  assumes "create_debian_structure p now s = Ok s'"
  shows "file_text (files s') (p @ [''debian'', ''control'']) = Some (control_text (config s))"
proof -
  let ?d = "p @ [''debian'']"
  from assms obtain f3 f4 f5 f6 f7 f8 f9 where
    w: "write_text (?d @ [''control'']) (control_text (config s)) f3 = Ok f4" and
    o1: "write_text (?d @ [''rules'']) rules_text f4 = Ok f5" and
    o2: "chmod (?d @ [''rules'']) mode_755 f5 = Ok f6" and
    o3: "write_text (?d @ [''compat'']) ''13'' f6 = Ok f7" and
    o4: "mkdir_exist_ok (?d @ [''source'']) f7 = Ok f8" and
    o5: "write_text ((?d @ [''source'']) @ [''format'']) ''3.0 (native)'' f8 = Ok f9" and
    e: "files s' = f9"
    unfolding create_debian_structure_def Let_def
    by (auto simp: and_then_Ok on_files_Ok logger_Ok)
  from w obtain m where "f4 (?d @ [''control'']) = Some (File (Text (control_text (config s))) m)"
    unfolding write_text_def by (auto dest: write_file_Ok)
  moreover have "f9 (?d @ [''control'']) = f4 (?d @ [''control''])"
    using write_file_other [OF o1 [unfolded write_text_def], of "?d @ [''control'']"]
      chmod_other [OF o2, of "?d @ [''control'']"]
      write_file_other [OF o3 [unfolded write_text_def], of "?d @ [''control'']"]
      mkdir_exist_ok_other [OF o4, of "?d @ [''control'']"]
      write_file_other [OF o5 [unfolded write_text_def], of "?d @ [''control'']"]
    by simp
  ultimately show ?thesis using e by (simp add: file_text_def)
qed

lemma readme_file_written:
  assumes "create_readme p s = Ok s'"
  shows "file_text (files s') (p @ [''README.md'']) = Some (readme_text (config s))"
  using assms unfolding create_readme_def write_text_def
  by (auto simp: and_then_Ok on_files_Ok logger_Ok file_text_def dest!: write_file_Ok)

lemma readme_example_not_joined:
  "\<not> py_contains ''python3, git''
       (readme_text (default_config\<lparr>name := ''test-package'',
                                     dependencies := [''python3'', ''git'']\<rparr>))"
  by (simp add: readme_text_def readme_head_def readme_tail_def bullet_list_def
      default_config_def text_defs)

text \<open>
  The README emitted for a record with the dependencies \<open>python3\<close> and \<open>git\<close> does not
  hold the text \<open>python3, git\<close>: the claim C1 as the specification words it fails there.
\<close>

theorem readme_joined_dependencies_counterexample:
  "dependencies (default_config\<lparr>name := ''test-package'', dependencies := [''python3'', ''git'']\<rparr>)
     = [''python3'', ''git'']
   \<and> is_ok (create_readme [''work'', ''test-package-1.0.0'']
        ((new_builder [[''work''] \<mapsto> Dir, [''work'', ''test-package-1.0.0''] \<mapsto> Dir]
            [''work''] [])
          \<lparr>config := default_config\<lparr>name := ''test-package'',
                                      dependencies := [''python3'', ''git'']\<rparr>\<rparr>))
   \<and> file_text (files (state_of (create_readme [''work'', ''test-package-1.0.0'']
        ((new_builder [[''work''] \<mapsto> Dir, [''work'', ''test-package-1.0.0''] \<mapsto> Dir]
            [''work''] [])
          \<lparr>config := default_config\<lparr>name := ''test-package'',
                                      dependencies := [''python3'', ''git'']\<rparr>\<rparr>))))
       ([''work'', ''test-package-1.0.0''] @ [''README.md''])
     = Some (readme_text (default_config\<lparr>name := ''test-package'',
                                     dependencies := [''python3'', ''git'']\<rparr>))
   \<and> \<not> py_contains ''python3, git''
       (readme_text (default_config\<lparr>name := ''test-package'',
                                     dependencies := [''python3'', ''git'']\<rparr>))"
proof -
  let ?cfg = "default_config\<lparr>name := ''test-package'', dependencies := [''python3'', ''git'']\<rparr>"
  let ?s = "(new_builder [[''work''] \<mapsto> Dir, [''work'', ''test-package-1.0.0''] \<mapsto> Dir]
            [''work''] [])\<lparr>config := ?cfg\<rparr>"
  let ?r = "create_readme [''work'', ''test-package-1.0.0''] ?s"
  have ok: "is_ok ?r" by code_simp
  then obtain s' where r: "?r = Ok s'" by (auto simp: is_ok_conv)
  have d: "dependencies ?cfg = [''python3'', ''git'']" by simp
  from readme_file_written [OF r] r ok d readme_example_not_joined show ?thesis by simp
qed

text \<open>
  Claim C1, as the code has it. For every record whose dependencies are \<open>python3\<close> and
  \<open>git\<close>: the file \<open>debian/control\<close> left by \<open>create_debian_structure\<close> holds the list
  joined by a comma and a space, \<open>python3, git\<close>; the file \<open>README.md\<close> left by
  \<open>create_readme\<close> holds the list as one bullet line per dependency, \<open>- python3\<close>
  followed by \<open>- git\<close>.
\<close>

theorem dependencies_in_control_and_readme:
  assumes "dependencies (config s) = [''python3'', ''git'']"
    and "create_debian_structure package_path now s = Ok s1"
    and "create_readme package_path s = Ok s2"
  shows "file_text (files s1) (package_path @ [''debian'', ''control''])
           = Some (control_text (config s))
       \<and> py_contains ''python3, git'' (control_text (config s))
       \<and> file_text (files s2) (package_path @ [''README.md''])
           = Some (readme_text (config s))
       \<and> py_contains (''- python3'' @ newline @ ''- git'' @ newline) (readme_text (config s))"
  using control_file_written [OF assms(2)] readme_file_written [OF assms(3)]
    dependencies_in_texts [OF assms(1)]
  by simp

theorem dependencies_in_control_and_readme_witness:
  "is_ok (create_debian_structure [''work'', ''test-package-1.0.0''] ''now''
        ((new_builder [[''work''] \<mapsto> Dir, [''work'', ''test-package-1.0.0''] \<mapsto> Dir]
            [''work''] [])
          \<lparr>config := default_config\<lparr>name := ''test-package'',
                                      dependencies := [''python3'', ''git'']\<rparr>\<rparr>))
   \<and> file_text (files (state_of (create_debian_structure [''work'', ''test-package-1.0.0''] ''now''
        ((new_builder [[''work''] \<mapsto> Dir, [''work'', ''test-package-1.0.0''] \<mapsto> Dir]
            [''work''] [])
          \<lparr>config := default_config\<lparr>name := ''test-package'',
                                      dependencies := [''python3'', ''git'']\<rparr>\<rparr>))))
       ([''work'', ''test-package-1.0.0''] @ [''debian'', ''control''])
     = Some (control_text (default_config\<lparr>name := ''test-package'',
                                     dependencies := [''python3'', ''git'']\<rparr>))
   \<and> py_contains ''python3, git''
       (control_text (default_config\<lparr>name := ''test-package'',
                                     dependencies := [''python3'', ''git'']\<rparr>))
   \<and> is_ok (create_readme [''work'', ''test-package-1.0.0'']
        ((new_builder [[''work''] \<mapsto> Dir, [''work'', ''test-package-1.0.0''] \<mapsto> Dir]
            [''work''] [])
          \<lparr>config := default_config\<lparr>name := ''test-package'',
                                      dependencies := [''python3'', ''git'']\<rparr>\<rparr>))
   \<and> py_contains (''- python3'' @ newline @ ''- git'' @ newline)
       (readme_text (default_config\<lparr>name := ''test-package'',
                                     dependencies := [''python3'', ''git'']\<rparr>))"
proof -
  let ?cfg = "default_config\<lparr>name := ''test-package'', dependencies := [''python3'', ''git'']\<rparr>"
  let ?s = "(new_builder [[''work''] \<mapsto> Dir, [''work'', ''test-package-1.0.0''] \<mapsto> Dir]
            [''work''] [])\<lparr>config := ?cfg\<rparr>"
  let ?r1 = "create_debian_structure [''work'', ''test-package-1.0.0''] ''now'' ?s"
  let ?r2 = "create_readme [''work'', ''test-package-1.0.0''] ?s"
  have ok1: "is_ok ?r1" by code_simp
  then obtain s1 where r1: "?r1 = Ok s1" by (auto simp: is_ok_conv)
  have ok2: "is_ok ?r2" by code_simp
  then obtain s2 where r2: "?r2 = Ok s2" by (auto simp: is_ok_conv)
  have d: "dependencies (config ?s) = [''python3'', ''git'']" by simp
  from dependencies_in_control_and_readme [OF d r1 r2] r1 r2 ok1 ok2 show ?thesis by simp
qed

end
